theory Spec2Isabelle
  imports Complex_Main
begin

section \<open>The cable model of \<open>Main.py\<close>\<close>

text \<open>
  \<open>Main.py\<close> is a script: it fixes the parameters of a three-phase submarine cable, derives
  the radii of its layers, draws the cross-section in FEMM by a sequence of calls, assigns
  materials and circuits, runs the solver and samples the solved field along a few lines.

  The embedding keeps the names and the order of the script. Its parameters are the fields of
  two records, so that a statement can range over every value of a parameter and not only over
  the one written in the file; \<open>Main_cable\<close> and \<open>Main_materials\<close> hold the values of the file.
  Python floats (and the integers the script mixes with them) are real numbers here: the
  rounding of IEEE doubles is not represented, every statement below is about exact arithmetic.
  The calls to FEMM are values of a datatype, and a run of the script is the list of calls it
  made together with the way it ended.
\<close>

subsection \<open>Parameters\<close>

text \<open>The user inputs (lines 29--43).\<close>

record cable =
  A_cond :: real
  cond_screen :: real
  insulation :: real
  insul_screen_NM :: real
  insul_screen_ME :: real
  bedding :: real
  r_armour :: real
  r_armour_2 :: real
  over_sheath :: real
  AMPS_RMS :: real
  freq :: real
  burial_depth :: real

definition Main_cable :: cable where
  "Main_cable =
    \<lparr>A_cond = 50, cond_screen = 0.2, insulation = 3.4, insul_screen_NM = 3.0,
     insul_screen_ME = 0.2, bedding = 0.2, r_armour = 2.00, r_armour_2 = 0, over_sheath = 2.0,
     AMPS_RMS = 0.057, freq = 50, burial_depth = 2000\<rparr>"

text \<open>The conductivity [S/m] and relative permeability of every material (lines 63--101).\<close>

record materials =
  copper_conductivity :: real
  copper_permeability :: real
  XLPE_conductivity :: real
  XLPE_permeability :: real
  NM_screen_conductivity :: real
  NM_screen_permeability :: real
  M_screen_conductivity :: real
  M_screen_permeability :: real
  inner_conductivity :: real
  inner_permeability :: real
  bedding_conductivity :: real
  bedding_permeability :: real
  armour_conductivity :: real
  armour_permeability :: real
  over_conductivity :: real
  over_permeability :: real
  seawater_conductivity :: real
  seawater_permeability :: real
  seabed_conductivity :: real
  seabed_permeability :: real

definition Main_materials :: materials where
  "Main_materials =
    \<lparr>copper_conductivity = 58000000, copper_permeability = 1.0,
     XLPE_conductivity = 0.0, XLPE_permeability = 1.0,
     NM_screen_conductivity = 1.0, NM_screen_permeability = 1.0,
     M_screen_conductivity = 5000000, M_screen_permeability = 1.0,
     inner_conductivity = 0.0, inner_permeability = 1.0,
     bedding_conductivity = 0.0, bedding_permeability = 1.0,
     armour_conductivity = 1100000, armour_permeability = 300,
     over_conductivity = 0.0, over_permeability = 1.0,
     seawater_conductivity = 5.0, seawater_permeability = 1.0,
     seabed_conductivity = 1.0, seabed_permeability = 1.0\<rparr>"

subsection \<open>Support variables\<close>

text \<open>Peak phase current (line 40).\<close>

definition AMPS :: "cable \<Rightarrow> real" where
  "AMPS c = sqrt 2 * AMPS_RMS c"

text \<open>
  The radii of one conductor and of its layers (lines 46--50). \<open>sp.sqrt\<close> is the square
  root of a non-negative number here; for a negative area SciPy returns a complex number, which
  the model does not follow.
\<close>

definition r_cond :: "cable \<Rightarrow> real" where
  "r_cond c = sqrt (A_cond c / pi)"

definition r_cond_screen :: "cable \<Rightarrow> real" where
  "r_cond_screen c = r_cond c + cond_screen c"

definition r_cond_insul :: "cable \<Rightarrow> real" where
  "r_cond_insul c = r_cond c + cond_screen c + insulation c"

definition r_cond_insu_screen_NM :: "cable \<Rightarrow> real" where
  "r_cond_insu_screen_NM c = r_cond c + cond_screen c + insulation c + insul_screen_NM c"

definition r_cond_total :: "cable \<Rightarrow> real" where
  "r_cond_total c =
     r_cond c + cond_screen c + insulation c + insul_screen_NM c + insul_screen_ME c"

definition dist1 :: real where
  "dist1 = 0.01"

definition dist2 :: real where
  "dist2 = 0.01"

definition cond_surf :: real where
  "cond_surf = 0.2"

definition cond_center :: "cable \<Rightarrow> real" where
  "cond_center c = 2 * r_cond_total c + cond_surf"

definition GridSize :: "cable \<Rightarrow> real" where
  "GridSize c = 0.3 * r_cond_total c"

text \<open>
  The apothem of an equilateral triangle (line 155), as a function of the distance between
  the conductor centres, and at the distance of the cable.
\<close>

definition delta_y_triangle_of :: "real \<Rightarrow> real" where
  "delta_y_triangle_of d = (1 / 6) * sqrt 3 * d"

definition delta_y_triangle :: "cable \<Rightarrow> real" where
  "delta_y_triangle c = delta_y_triangle_of (cond_center c)"

definition limit_fine :: real where
  "limit_fine = 400"

definition limit_coarse :: real where
  "limit_coarse = 3500"

text \<open>\<open>np.radians\<close>, and the two constants of lines 197--198.\<close>

definition radians :: "real \<Rightarrow> real" where
  "radians x = x * pi / 180"

definition cos60 :: real where
  "cos60 = cos (radians 60)"

definition sin60 :: real where
  "sin60 = sin (radians 60)"

text \<open>
  The block labels of the three conductors (lines 201, 230 and 259), as functions of the
  distance \<open>d\<close> between the centres: these are the centres of the three conductor stacks.
\<close>

type_synonym point = "real \<times> real"

definition center1 :: "real \<Rightarrow> point" where
  "center1 d = (d * cos60, - delta_y_triangle_of d)"

definition center2 :: "real \<Rightarrow> point" where
  "center2 d = (0, d * sin60 - delta_y_triangle_of d)"

definition center3 :: "real \<Rightarrow> point" where
  "center3 d = (- d * cos60, - delta_y_triangle_of d)"

text \<open>Euclidean distance between two points of the drawing plane.\<close>

definition distance :: "point \<Rightarrow> point \<Rightarrow> real" where
  "distance p q = sqrt ((fst p - fst q)\<^sup>2 + (snd p - snd q)\<^sup>2)"

subsection \<open>The armour rings\<close>

text \<open>
  Lines 306--310, and again lines 331--335 for the second layer:
  \<^verbatim>\<open>
  space = 0.05
  R_armour = (cond_center * sin60 - delta_y_triangle) + r_cond_total + bedding + r_armour
  Armour_perimeter = 2 * sp.pi * (R_armour)
  NbrOfArmourElem = int( sp.floor( Armour_perimeter/(2*r_armour + space)) )
  theta = np.radians(360/NbrOfArmourElem)
  \<close>
  The perimeter is a NumPy float: dividing it by a zero float gives an infinity or a NaN,
  which \<open>int\<close> refuses with OverflowError or ValueError. \<open>360/NbrOfArmourElem\<close> divides two
  Python integers and raises ZeroDivisionError when the count is zero.
\<close>

datatype py_error = ZeroDivisionError | OverflowError | ValueError

definition space :: real where
  "space = 0.05"

definition R_armour :: "cable \<Rightarrow> real" where
  "R_armour c =
     (cond_center c * sin60 - delta_y_triangle c) + r_cond_total c + bedding c + r_armour c"

definition NbrOfArmourElem_of :: "real \<Rightarrow> real \<Rightarrow> real \<Rightarrow> py_error + int" where
  "NbrOfArmourElem_of R r g =
     (let Armour_perimeter = 2 * pi * R in
      if 2 * r + g = 0
      then (if Armour_perimeter = 0 then Inl ValueError else Inl OverflowError)
      else Inr \<lfloor>Armour_perimeter / (2 * r + g)\<rfloor>)"

definition theta_of :: "int \<Rightarrow> py_error + real" where
  "theta_of N = (if N = 0 then Inl ZeroDivisionError else Inr (radians (360 / real_of_int N)))"

definition NbrOfArmourElem :: "cable \<Rightarrow> py_error + int" where
  "NbrOfArmourElem c = NbrOfArmourElem_of (R_armour c) (r_armour c) space"

definition R_armour_2 :: "cable \<Rightarrow> real" where
  "R_armour_2 c = R_armour c + r_armour c + space + r_armour_2 c"

definition NbrOfArmourElem2 :: "cable \<Rightarrow> py_error + int" where
  "NbrOfArmourElem2 c = NbrOfArmourElem_of (R_armour_2 c) (r_armour_2 c) space"

text \<open>
  The centres of the wires of one ring: the label points of the loop of lines 313--316, for a
  ring of radius \<open>R\<close> with \<open>N\<close> wires and angular step \<open>theta\<close>.
\<close>

definition wire_center :: "real \<Rightarrow> real \<Rightarrow> int \<Rightarrow> point" where
  "wire_center R theta i =
     (R * sin ((real_of_int i - 1) * theta), R * cos ((real_of_int i - 1) * theta))"

definition wire_centers :: "real \<Rightarrow> int \<Rightarrow> real \<Rightarrow> point list" where
  "wire_centers R N theta = map (wire_center R theta) [1..N]"

text \<open>Overall cable radius (lines 357 and 378).\<close>

definition R_cable_total :: "cable \<Rightarrow> real" where
  "R_cable_total c =
     (if r_armour_2 c \<noteq> 0 then R_armour_2 c + r_armour_2 c + over_sheath c + dist1
      else R_armour c + r_armour c + over_sheath c + dist1)"

subsection \<open>Calls to FEMM\<close>

text \<open>
  One constructor for each function of the \<open>femm\<close> module that the script calls, with the
  arguments in the order of the call; the coordinates of a point are paired. The numeric
  arguments of \<open>mi_addmaterial\<close> are kept as the list the script passes. \<open>py_print\<close> is a line
  written to the standard output.
\<close>

datatype femm_call =
    openfemm
  | newdocument int
  | mi_probdef real string string real real real int
  | mi_zoom real real real real
  | mi_addmaterial string "real list"
  | mi_addblocklabel point
  | mi_drawline point point
  | mi_drawarc point point real int
  | mi_selectlabel point
  | mi_setblockprop string int real string real int int
  | mi_addcircprop string complex int
  | mi_saveas string
  | mi_analyze
  | mi_loadsolution
  | py_print string "real list"

text \<open>Starting FEMM and defining the problem (lines 107--122).\<close>

definition start_calls :: "cable \<Rightarrow> femm_call list" where
  "start_calls c =
    [openfemm,
     newdocument 0,
     mi_probdef (freq c) ''millimeters'' ''planar'' (1 / 10 ^ 8) 5000 10 0,
     mi_zoom (- 400) (- 400) 400 400]"

text \<open>
  The component materials (lines 127--146); \<open>10**-6\<close> is \<open>1 / 10 ^ 6\<close>. The first call
  passes \<open>seawater_conductivity\<close> for the material of the conductors.
\<close>

definition material_calls :: "materials \<Rightarrow> femm_call list" where
  "material_calls m =
    [mi_addmaterial ''copper_conductors'' [copper_permeability m, copper_permeability m,
        0, 0, seawater_conductivity m * (1 / 10 ^ 6), 0, 0, 0, 0, 0, 0, 0, 0],
     mi_addmaterial ''XLPE'' [XLPE_permeability m, XLPE_permeability m,
        0, 0, XLPE_conductivity m * (1 / 10 ^ 6), 0, 0, 0, 0, 0, 0, 0, 0],
     mi_addmaterial ''M_screen'' [M_screen_permeability m, M_screen_permeability m,
        0, 0, M_screen_conductivity m * (1 / 10 ^ 6), 0, 0, 0, 0, 0, 0, 0, 0],
     mi_addmaterial ''NM_screen'' [NM_screen_permeability m, NM_screen_permeability m,
        0, 0, NM_screen_conductivity m * (1 / 10 ^ 6), 0, 0, 0, 0, 0, 0, 0, 0],
     mi_addmaterial ''inner'' [inner_permeability m, inner_permeability m,
        0, 0, inner_conductivity m * (1 / 10 ^ 6), 0, 0, 0, 0, 0, 0, 0, 0],
     mi_addmaterial ''bedding'' [bedding_permeability m, bedding_permeability m,
        0, 0, bedding_conductivity m * (1 / 10 ^ 6), 0, 0, 0, 0, 0, 0, 0, 0],
     mi_addmaterial ''armour'' [armour_permeability m, armour_permeability m,
        0, 0, armour_conductivity m * (1 / 10 ^ 6), 0, 0, 0, 0, 0, 0, 0, 0],
     mi_addmaterial ''over'' [over_permeability m, over_permeability m,
        0, 0, over_conductivity m * (1 / 10 ^ 6), 0, 0, 0, 0, 0, 0, 0, 0],
     mi_addmaterial ''seawater'' [seawater_permeability m, seawater_permeability m,
        0, 0, seawater_conductivity m * (1 / 10 ^ 6), 0, 0, 0, 0, 0, 0, 0, 0],
     mi_addmaterial ''seabed'' [seabed_permeability m, seabed_permeability m,
        0, 0, seabed_conductivity m * (1 / 10 ^ 6), 0, 0, 0, 0, 0, 0, 0, 0]]"

text \<open>The outer square and the finer inner square, each with its block label (lines 170--181).\<close>

definition square_calls :: "femm_call list" where
  "square_calls =
    [mi_addblocklabel (limit_coarse * 4 / 5, limit_coarse * 4 / 5),
     mi_drawline (limit_coarse, limit_coarse) (limit_coarse, - limit_coarse),
     mi_drawline (limit_coarse, limit_coarse) (- limit_coarse, limit_coarse),
     mi_drawline (- limit_coarse, - limit_coarse) (limit_coarse, - limit_coarse),
     mi_drawline (- limit_coarse, - limit_coarse) (- limit_coarse, limit_coarse),
     mi_addblocklabel (limit_fine * 4 / 5, limit_fine * 4 / 5),
     mi_drawline (limit_fine, limit_fine) (limit_fine, - limit_fine),
     mi_drawline (limit_fine, limit_fine) (- limit_fine, limit_fine),
     mi_drawline (- limit_fine, - limit_fine) (limit_fine, - limit_fine),
     mi_drawline (- limit_fine, - limit_fine) (- limit_fine, limit_fine)]"

text \<open>The seabed split: a ninth straight line and a third environment label, drawn only
  when the burial depth is non-zero and exceeds \<open>limit_fine\<close> (lines 187--191).\<close>

definition seabed_calls :: "cable \<Rightarrow> femm_call list" where
  "seabed_calls c =
    (if burial_depth c \<noteq> 0 \<and> burial_depth c > limit_fine
     then [mi_addblocklabel (limit_coarse * 4 / 5, - limit_coarse * 4 / 5),
      mi_drawline (- limit_coarse, burial_depth c) (limit_coarse, burial_depth c)]
     else [])"

text \<open>Conductor 1: five concentric circles, each drawn as two half arcs, with a label in every ring (lines 201--223).\<close>

definition conductor1_calls :: "cable \<Rightarrow> femm_call list" where
  "conductor1_calls c =
    [mi_addblocklabel (cond_center c * cos60, - delta_y_triangle c),
     mi_drawarc (cond_center c * cos60 - r_cond c, - delta_y_triangle c) (cond_center c * cos60 + r_cond c, - delta_y_triangle c) 180 3,
     mi_drawarc (cond_center c * cos60 + r_cond c, - delta_y_triangle c) (cond_center c * cos60 - r_cond c, - delta_y_triangle c) 180 3,
     mi_addblocklabel (cond_center c * cos60 + r_cond_screen c - 0.5 * cond_screen c, - delta_y_triangle c),
     mi_drawarc (cond_center c * cos60 - r_cond_screen c, - delta_y_triangle c) (cond_center c * cos60 + r_cond_screen c, - delta_y_triangle c) 180 3,
     mi_drawarc (cond_center c * cos60 + r_cond_screen c, - delta_y_triangle c) (cond_center c * cos60 - r_cond_screen c, - delta_y_triangle c) 180 3,
     mi_addblocklabel (cond_center c * cos60 + r_cond_insul c - 0.5 * insulation c, - delta_y_triangle c),
     mi_drawarc (cond_center c * cos60 - r_cond_insul c, - delta_y_triangle c) (cond_center c * cos60 + r_cond_insul c, - delta_y_triangle c) 180 3,
     mi_drawarc (cond_center c * cos60 + r_cond_insul c, - delta_y_triangle c) (cond_center c * cos60 - r_cond_insul c, - delta_y_triangle c) 180 3,
     mi_addblocklabel (cond_center c * cos60 + r_cond_insu_screen_NM c - 0.5 * insul_screen_NM c, - delta_y_triangle c),
     mi_drawarc (cond_center c * cos60 - r_cond_insu_screen_NM c, - delta_y_triangle c) (cond_center c * cos60 + r_cond_insu_screen_NM c, - delta_y_triangle c) 180 3,
     mi_drawarc (cond_center c * cos60 + r_cond_insu_screen_NM c, - delta_y_triangle c) (cond_center c * cos60 - r_cond_insu_screen_NM c, - delta_y_triangle c) 180 3,
     mi_addblocklabel (cond_center c * cos60 + r_cond_total c - 0.5 * insul_screen_ME c, - delta_y_triangle c),
     mi_drawarc (cond_center c * cos60 - r_cond_total c, - delta_y_triangle c) (cond_center c * cos60 + r_cond_total c, - delta_y_triangle c) 180 3,
     mi_drawarc (cond_center c * cos60 + r_cond_total c, - delta_y_triangle c) (cond_center c * cos60 - r_cond_total c, - delta_y_triangle c) 180 3]"

text \<open>Conductor 2 (lines 230--252).\<close>

definition conductor2_calls :: "cable \<Rightarrow> femm_call list" where
  "conductor2_calls c =
    [mi_addblocklabel (0, cond_center c * sin60 - delta_y_triangle c),
     mi_drawarc (0, cond_center c * sin60 - r_cond c - delta_y_triangle c) (0, cond_center c * sin60 + r_cond c - delta_y_triangle c) 180 3,
     mi_drawarc (0, cond_center c * sin60 + r_cond c - delta_y_triangle c) (0, cond_center c * sin60 - r_cond c - delta_y_triangle c) 180 3,
     mi_addblocklabel (0 + r_cond_screen c - 0.5 * cond_screen c, cond_center c * sin60 - delta_y_triangle c),
     mi_drawarc (0, cond_center c * sin60 - r_cond_screen c - delta_y_triangle c) (0, cond_center c * sin60 + r_cond_screen c - delta_y_triangle c) 180 3,
     mi_drawarc (0, cond_center c * sin60 + r_cond_screen c - delta_y_triangle c) (0, cond_center c * sin60 - r_cond_screen c - delta_y_triangle c) 180 3,
     mi_addblocklabel (0 + r_cond_insul c - 0.5 * insulation c, cond_center c * sin60 - delta_y_triangle c),
     mi_drawarc (0, cond_center c * sin60 - r_cond_insul c - delta_y_triangle c) (0, cond_center c * sin60 + r_cond_insul c - delta_y_triangle c) 180 3,
     mi_drawarc (0, cond_center c * sin60 + r_cond_insul c - delta_y_triangle c) (0, cond_center c * sin60 - r_cond_insul c - delta_y_triangle c) 180 3,
     mi_addblocklabel (0 + r_cond_insu_screen_NM c - 0.5 * insul_screen_NM c, cond_center c * sin60 - delta_y_triangle c),
     mi_drawarc (0, cond_center c * sin60 - r_cond_insu_screen_NM c - delta_y_triangle c) (0, cond_center c * sin60 + r_cond_insu_screen_NM c - delta_y_triangle c) 180 3,
     mi_drawarc (0, cond_center c * sin60 + r_cond_insu_screen_NM c - delta_y_triangle c) (0, cond_center c * sin60 - r_cond_insu_screen_NM c - delta_y_triangle c) 180 3,
     mi_addblocklabel (0 + r_cond_total c - 0.5 * insul_screen_ME c, cond_center c * sin60 - delta_y_triangle c),
     mi_drawarc (0, cond_center c * sin60 - r_cond_total c - delta_y_triangle c) (0, cond_center c * sin60 + r_cond_total c - delta_y_triangle c) 180 3,
     mi_drawarc (0, cond_center c * sin60 + r_cond_total c - delta_y_triangle c) (0, cond_center c * sin60 - r_cond_total c - delta_y_triangle c) 180 3]"

text \<open>Conductor 3 (lines 259--281).\<close>

definition conductor3_calls :: "cable \<Rightarrow> femm_call list" where
  "conductor3_calls c =
    [mi_addblocklabel (- cond_center c * cos60, - delta_y_triangle c),
     mi_drawarc (- cond_center c * cos60 - r_cond c, 0 - delta_y_triangle c) (- cond_center c * cos60 + r_cond c, 0 - delta_y_triangle c) 180 3,
     mi_drawarc (- cond_center c * cos60 + r_cond c, 0 - delta_y_triangle c) (- cond_center c * cos60 - r_cond c, 0 - delta_y_triangle c) 180 3,
     mi_addblocklabel (- cond_center c * cos60 + r_cond_screen c - 0.5 * cond_screen c, - delta_y_triangle c),
     mi_drawarc (- cond_center c * cos60 - r_cond_screen c, 0 - delta_y_triangle c) (- cond_center c * cos60 + r_cond_screen c, 0 - delta_y_triangle c) 180 3,
     mi_drawarc (- cond_center c * cos60 + r_cond_screen c, 0 - delta_y_triangle c) (- cond_center c * cos60 - r_cond_screen c, 0 - delta_y_triangle c) 180 3,
     mi_addblocklabel (- cond_center c * cos60 + r_cond_insul c - 0.5 * insulation c, - delta_y_triangle c),
     mi_drawarc (- cond_center c * cos60 - r_cond_insul c, 0 - delta_y_triangle c) (- cond_center c * cos60 + r_cond_insul c, 0 - delta_y_triangle c) 180 3,
     mi_drawarc (- cond_center c * cos60 + r_cond_insul c, 0 - delta_y_triangle c) (- cond_center c * cos60 - r_cond_insul c, 0 - delta_y_triangle c) 180 3,
     mi_addblocklabel (- cond_center c * cos60 + r_cond_insu_screen_NM c - 0.5 * insul_screen_NM c, - delta_y_triangle c),
     mi_drawarc (- cond_center c * cos60 - r_cond_insu_screen_NM c, 0 - delta_y_triangle c) (- cond_center c * cos60 + r_cond_insu_screen_NM c, 0 - delta_y_triangle c) 180 3,
     mi_drawarc (- cond_center c * cos60 + r_cond_insu_screen_NM c, 0 - delta_y_triangle c) (- cond_center c * cos60 - r_cond_insu_screen_NM c, 0 - delta_y_triangle c) 180 3,
     mi_addblocklabel (- cond_center c * cos60 + r_cond_total c - 0.5 * insul_screen_ME c, - delta_y_triangle c),
     mi_drawarc (- cond_center c * cos60 - r_cond_total c, 0 - delta_y_triangle c) (- cond_center c * cos60 + r_cond_total c, 0 - delta_y_triangle c) 180 3,
     mi_drawarc (- cond_center c * cos60 + r_cond_total c, 0 - delta_y_triangle c) (- cond_center c * cos60 - r_cond_total c, 0 - delta_y_triangle c) 180 3]"

text \<open>The label of the laying-up region between the conductors (lines 286--286).\<close>

definition filling_calls :: "femm_call list" where
  "filling_calls =
    [mi_addblocklabel (0, 0)]"

text \<open>The bedding: its label, the inner circle and the outer circle (lines 293--299).\<close>

definition bedding_calls :: "cable \<Rightarrow> femm_call list" where
  "bedding_calls c =
    [mi_addblocklabel (0, cond_center c * sin60 + r_cond_total c - delta_y_triangle c + 0.5 * bedding c),
     mi_drawarc (0, cond_center c * sin60 + r_cond_total c - delta_y_triangle c + dist1) (0, - cond_center c * sin60 - r_cond_total c + delta_y_triangle c - dist1) 180 3,
     mi_drawarc (0, - cond_center c * sin60 - r_cond_total c + delta_y_triangle c - dist1) (0, cond_center c * sin60 + r_cond_total c - delta_y_triangle c + dist1) 180 3,
     mi_drawarc (0, cond_center c * sin60 + r_cond_total c - delta_y_triangle c + bedding c) (0, - cond_center c * sin60 - r_cond_total c + delta_y_triangle c - bedding c) 180 3,
     mi_drawarc (0, - cond_center c * sin60 - r_cond_total c + delta_y_triangle c - bedding c) (0, cond_center c * sin60 + r_cond_total c - delta_y_triangle c + bedding c) 180 3]"

text \<open>The loop over the wires of the first armour layer, \<open>for i in range(1, NbrOfArmourElem+1)\<close>
  (lines 313--316): one label and two half arcs for each wire.\<close>

definition armour1_calls :: "cable \<Rightarrow> int \<Rightarrow> real \<Rightarrow> femm_call list" where
  "armour1_calls c N theta =
    concat (map (\<lambda>i.
      [mi_addblocklabel (R_armour c * sin ((real_of_int i - 1) * theta), R_armour c * cos ((real_of_int i - 1) * theta)),
       mi_drawarc ((R_armour c - r_armour c + dist1) * sin ((real_of_int i - 1) * theta), (R_armour c - r_armour c + dist1) * cos ((real_of_int i - 1) * theta)) ((R_armour c + r_armour c - dist1) * sin ((real_of_int i - 1) * theta), (R_armour c + r_armour c - dist1) * cos ((real_of_int i - 1) * theta)) 180 3,
       mi_drawarc ((R_armour c + r_armour c - dist1) * sin ((real_of_int i - 1) * theta), (R_armour c + r_armour c - dist1) * cos ((real_of_int i - 1) * theta)) ((R_armour c - r_armour c + dist1) * sin ((real_of_int i - 1) * theta), (R_armour c - r_armour c + dist1) * cos ((real_of_int i - 1) * theta)) 180 3]) [1..N])"

text \<open>The label of the area between the armour wires (lines 322--322).\<close>

definition between_armour_calls :: "cable \<Rightarrow> real \<Rightarrow> femm_call list" where
  "between_armour_calls c theta =
    [mi_addblocklabel ((R_armour c - 0.4 * r_armour c) * sin ((1 - 0.5) * theta), (R_armour c - 0.4 * r_armour c) * cos ((1 - 0.5) * theta))]"

text \<open>The second armour layer, drawn when \<open>r_armour_2\<close> is not zero (lines 338--341).\<close>

definition armour2_calls :: "cable \<Rightarrow> int \<Rightarrow> real \<Rightarrow> femm_call list" where
  "armour2_calls c N2 theta_2 =
    concat (map (\<lambda>i.
      [mi_addblocklabel (R_armour_2 c * sin ((real_of_int i - 1) * theta_2), R_armour_2 c * cos ((real_of_int i - 1) * theta_2)),
       mi_drawarc ((R_armour_2 c - r_armour_2 c + dist1) * sin ((real_of_int i - 1) * theta_2), (R_armour_2 c - r_armour_2 c + dist1) * cos ((real_of_int i - 1) * theta_2)) ((R_armour_2 c + r_armour_2 c - dist1) * sin ((real_of_int i - 1) * theta_2), (R_armour_2 c + r_armour_2 c - dist1) * cos ((real_of_int i - 1) * theta_2)) 180 3,
       mi_drawarc ((R_armour_2 c + r_armour_2 c - dist1) * sin ((real_of_int i - 1) * theta_2), (R_armour_2 c + r_armour_2 c - dist1) * cos ((real_of_int i - 1) * theta_2)) ((R_armour_2 c - r_armour_2 c + dist1) * sin ((real_of_int i - 1) * theta_2), (R_armour_2 c - r_armour_2 c + dist1) * cos ((real_of_int i - 1) * theta_2)) 180 3]) [1..N2])"

text \<open>The over sheath around a second armour layer (lines 348--354).\<close>

definition over_sheath2_calls :: "cable \<Rightarrow> femm_call list" where
  "over_sheath2_calls c =
    [mi_addblocklabel (0, R_armour_2 c + r_armour_2 c + dist1 + 0.5 * over_sheath c),
     mi_drawarc (0, R_armour_2 c + r_armour_2 c + dist1) (0, - R_armour_2 c - r_armour_2 c - dist1) 180 2,
     mi_drawarc (0, - R_armour_2 c - r_armour_2 c - dist1) (0, R_armour_2 c + r_armour_2 c + dist1) 180 2,
     mi_drawarc (0, R_armour_2 c + r_armour_2 c + over_sheath c + 2 * dist1) (0, - R_armour_2 c - r_armour_2 c - over_sheath c - 2 * dist1) 180 2,
     mi_drawarc (0, - R_armour_2 c - r_armour_2 c - over_sheath c - 2 * dist1) (0, R_armour_2 c + r_armour_2 c + over_sheath c + 2 * dist1) 180 2]"

text \<open>The over sheath around the first armour layer, when there is no second one (lines 369--375).\<close>

definition over_sheath1_calls :: "cable \<Rightarrow> femm_call list" where
  "over_sheath1_calls c =
    [mi_addblocklabel (0, R_armour c + r_armour c + dist1 + 0.5 * over_sheath c),
     mi_drawarc (0, R_armour c + r_armour c + dist1) (0, - R_armour c - r_armour c - dist1) 180 2,
     mi_drawarc (0, - R_armour c - r_armour c - dist1) (0, R_armour c + r_armour c + dist1) 180 2,
     mi_drawarc (0, R_armour c + r_armour c + over_sheath c + 2 * dist1) (0, - R_armour c - r_armour c - over_sheath c - 2 * dist1) 180 2,
     mi_drawarc (0, - R_armour c - r_armour c - over_sheath c - 2 * dist1) (0, R_armour c + r_armour c + over_sheath c + 2 * dist1) 180 2]"

text \<open>The material of the environment rectangles (lines 400--416). Every assignment of
  the script is made twice, \<open>for i in range(2)\<close>, selecting the label again to deselect it.\<close>

definition environment_prop_calls :: "cable \<Rightarrow> femm_call list" where
  "environment_prop_calls c =
    concat (replicate 2
      [mi_selectlabel (limit_coarse * 4 / 5, limit_coarse * 4 / 5),
       mi_setblockprop ''seawater'' 0 (10 * GridSize c) ''<None>'' 0 0 0]) @
    (if burial_depth c \<noteq> 0 \<and> burial_depth c > limit_fine
     then concat (replicate 2
            [mi_selectlabel (limit_fine * 4 / 5, limit_fine * 4 / 5),
             mi_setblockprop ''seabed'' 0 (6 * GridSize c) ''<None>'' 0 0 0]) @
          concat (replicate 2
            [mi_selectlabel (limit_coarse * 4 / 5, - limit_coarse * 4 / 5),
             mi_setblockprop ''seabed'' 0 (10 * GridSize c) ''<None>'' 0 0 0])
     else concat (replicate 2
            [mi_selectlabel (limit_fine * 4 / 5, limit_fine * 4 / 5),
             mi_setblockprop ''seawater'' 0 (6 * GridSize c) ''<None>'' 0 0 0]))"

text \<open>The material of the armour wires, \<open>for i in range(1, 2*NbrOfArmourElem+1)\<close>
  (lines 423--427); \<open>femm.mi_clearselected\<close> is written without parentheses there, so it calls
  nothing.\<close>

definition armour1_prop_calls :: "cable \<Rightarrow> int \<Rightarrow> real \<Rightarrow> femm_call list" where
  "armour1_prop_calls c N theta =
    concat (map (\<lambda>i.
      [mi_selectlabel (R_armour c * sin ((real_of_int i - 1) * theta), R_armour c * cos ((real_of_int i - 1) * theta)),
       mi_setblockprop ''armour'' 0 (0.5 * GridSize c) ''<None>'' 0 0 0]) [1..2 * N])"

text \<open>The material of the area between the armour wires (lines 432--434).\<close>

definition between_armour_prop_calls :: "cable \<Rightarrow> real \<Rightarrow> femm_call list" where
  "between_armour_prop_calls c theta =
    concat (replicate 2
      [mi_selectlabel ((R_armour c - 0.4 * r_armour c) * sin ((1 - 0.5) * theta), (R_armour c - 0.4 * r_armour c) * cos ((1 - 0.5) * theta)),
       mi_setblockprop ''seawater'' 0 (GridSize c) ''<None>'' 0 0 0])"

text \<open>Second armour layer and its over sheath (lines 444--457).\<close>

definition armour2_prop_calls :: "cable \<Rightarrow> int \<Rightarrow> real \<Rightarrow> femm_call list" where
  "armour2_prop_calls c N2 theta_2 =
    concat (map (\<lambda>i.
      [mi_selectlabel (R_armour_2 c * sin ((real_of_int i - 1) * theta_2), R_armour_2 c * cos ((real_of_int i - 1) * theta_2)),
       mi_setblockprop ''armour'' 0 (0.5 * GridSize c) ''<None>'' 0 0 0]) [1..2 * N2])"

definition over_sheath2_prop_calls :: "cable \<Rightarrow> femm_call list" where
  "over_sheath2_prop_calls c =
    concat (replicate 2
      [mi_selectlabel (0, R_armour_2 c + r_armour_2 c + dist1 + 0.5 * over_sheath c),
       mi_setblockprop ''over'' 0 (GridSize c) ''<None>'' 0 0 0])"

text \<open>Over sheath without a second armour layer (lines 466--468).\<close>

definition over_sheath1_prop_calls :: "cable \<Rightarrow> femm_call list" where
  "over_sheath1_prop_calls c =
    concat (replicate 2
      [mi_selectlabel (0, R_armour c + r_armour c + dist1 + 0.5 * over_sheath c),
       mi_setblockprop ''over'' 0 (GridSize c) ''<None>'' 0 0 0])"

text \<open>Bedding, filling and the layers of the three conductors (lines 475--541).\<close>

definition inner_prop_calls :: "cable \<Rightarrow> femm_call list" where
  "inner_prop_calls c =
    concat (replicate 2
      [mi_selectlabel (0, cond_center c * sin60 + r_cond_total c - delta_y_triangle c + 0.5 * bedding c),
       mi_setblockprop ''bedding'' 0 (GridSize c) ''<None>'' 0 0 0]) @
    concat (replicate 2
      [mi_selectlabel (0, 0),
       mi_setblockprop ''bedding'' 0 (GridSize c) ''<None>'' 0 0 0]) @
    concat (replicate 2
      [mi_selectlabel (cond_center c * cos60 + r_cond_total c - 0.5 * insul_screen_ME c, - delta_y_triangle c),
       mi_selectlabel (0 + r_cond_total c - 0.5 * insul_screen_ME c, cond_center c * sin60 - delta_y_triangle c),
       mi_selectlabel (- cond_center c * cos60 + r_cond_total c - 0.5 * insul_screen_ME c, - delta_y_triangle c),
       mi_setblockprop ''M_screen'' 0 (GridSize c) ''<None>'' 0 0 0]) @
    concat (replicate 2
      [mi_selectlabel (cond_center c * cos60 + r_cond_insu_screen_NM c - 0.5 * insul_screen_NM c, - delta_y_triangle c),
       mi_selectlabel (0 + r_cond_insu_screen_NM c - 0.5 * insul_screen_NM c, cond_center c * sin60 - delta_y_triangle c),
       mi_selectlabel (- cond_center c * cos60 + r_cond_insu_screen_NM c - 0.5 * insul_screen_NM c, - delta_y_triangle c),
       mi_setblockprop ''NM_screen'' 0 (GridSize c) ''<None>'' 0 0 0]) @
    concat (replicate 2
      [mi_selectlabel (cond_center c * cos60 + r_cond_insul c - 0.5 * insulation c, - delta_y_triangle c),
       mi_selectlabel (0 + r_cond_insul c - 0.5 * insulation c, cond_center c * sin60 - delta_y_triangle c),
       mi_selectlabel (- cond_center c * cos60 + r_cond_insul c - 0.5 * insulation c, - delta_y_triangle c),
       mi_setblockprop ''XLPE'' 0 (GridSize c) ''<None>'' 0 0 0]) @
    concat (replicate 2
      [mi_selectlabel (cond_center c * cos60 + r_cond_screen c - 0.5 * cond_screen c, - delta_y_triangle c),
       mi_selectlabel (0 + r_cond_screen c - 0.5 * cond_screen c, cond_center c * sin60 - delta_y_triangle c),
       mi_selectlabel (- cond_center c * cos60 + r_cond_screen c - 0.5 * cond_screen c, - delta_y_triangle c),
       mi_setblockprop ''NM_screen'' 0 (GridSize c) ''<None>'' 0 0 0]) @
    concat (replicate 2
      [mi_selectlabel (cond_center c * cos60, - delta_y_triangle c),
       mi_setblockprop ''copper_conductors'' 0 (0.5 * GridSize c) ''icoil1'' 0 0 0,
       mi_selectlabel (0, cond_center c * sin60 - delta_y_triangle c),
       mi_setblockprop ''copper_conductors'' 0 (0.5 * GridSize c) ''icoil2'' 0 0 0,
       mi_selectlabel (- cond_center c * cos60, - delta_y_triangle c),
       mi_setblockprop ''copper_conductors'' 0 (0.5 * GridSize c) ''icoil3'' 0 0 0])"

text \<open>
  The three circuits (lines 546--548):
  \<^verbatim>\<open>
  femm.mi_addcircprop('icoil1', AMPS+0j, 1)
  femm.mi_addcircprop('icoil2', -0.5*AMPS+AMPS*0.866j, 1)
  femm.mi_addcircprop('icoil3', -0.5*AMPS-AMPS*0.866j, 1)
  \<close>
\<close>

definition icoil1 :: "cable \<Rightarrow> complex" where
  "icoil1 c = of_real (AMPS c) + 0 * \<i>"

definition icoil2 :: "cable \<Rightarrow> complex" where
  "icoil2 c = of_real (- 0.5 * AMPS c) + of_real (AMPS c) * (0.866 * \<i>)"

definition icoil3 :: "cable \<Rightarrow> complex" where
  "icoil3 c = of_real (- 0.5 * AMPS c) - of_real (AMPS c) * (0.866 * \<i>)"

definition circuit_calls :: "cable \<Rightarrow> femm_call list" where
  "circuit_calls c =
    [mi_addcircprop ''icoil1'' (icoil1 c) 1,
     mi_addcircprop ''icoil2'' (icoil2 c) 1,
     mi_addcircprop ''icoil3'' (icoil3 c) 1]"

text \<open>Saving the model, running the solver and loading the solution (lines 559--564).\<close>

definition solve_calls :: "femm_call list" where
  "solve_calls = [mi_saveas ''SubseaCable_model.fem'', mi_analyze, mi_loadsolution]"

subsection \<open>The run of the script\<close>

text \<open>
  Everything the script has drawn when it reaches the first armour layer (lines 107--299): this
  part raises nothing.
\<close>

definition core_calls :: "cable \<Rightarrow> materials \<Rightarrow> femm_call list" where
  "core_calls c m =
     start_calls c @ material_calls m @ square_calls @ seabed_calls c @
     conductor1_calls c @ conductor2_calls c @ conductor3_calls c @
     filling_calls @ bedding_calls c"

text \<open>
  What follows the geometry when nothing was raised (lines 384--564): the assignment of
  materials and circuits, and the solver. The two arguments are the calls of the rings, which
  depend on the layers the cable has.
\<close>

definition finish_calls :: "cable \<Rightarrow> femm_call list \<Rightarrow> femm_call list" where
  "finish_calls c ring_props =
     [py_print ''Overall Cable Diameter :'' [2 * R_cable_total c],
      py_print ''Objects geometries defined'' []] @
     environment_prop_calls c @ ring_props @ inner_prop_calls c @ circuit_calls c @
     [py_print ''Objects properties defined'' []] @ solve_calls"

datatype outcome = Completed | Raised py_error

record run =
  calls :: "femm_call list"
  status :: outcome

text \<open>
  The script, from its first call to FEMM to \<open>mi_loadsolution\<close>. An exception ends the run with
  the calls made so far.
\<close>

definition script :: "cable \<Rightarrow> materials \<Rightarrow> run" where
  "script c m =
    (case NbrOfArmourElem c of
       Inl e \<Rightarrow> \<lparr>calls = core_calls c m, status = Raised e\<rparr>
     | Inr N \<Rightarrow>
        (case theta_of N of
           Inl e \<Rightarrow> \<lparr>calls = core_calls c m, status = Raised e\<rparr>
         | Inr theta \<Rightarrow>
            (let layer1 = core_calls c m @ armour1_calls c N theta @ between_armour_calls c theta in
             if r_armour_2 c \<noteq> 0 then
               (case NbrOfArmourElem2 c of
                  Inl e \<Rightarrow> \<lparr>calls = layer1, status = Raised e\<rparr>
                | Inr N2 \<Rightarrow>
                   (case theta_of N2 of
                      Inl e \<Rightarrow> \<lparr>calls = layer1, status = Raised e\<rparr>
                    | Inr theta_2 \<Rightarrow>
                       \<lparr>calls = layer1 @ armour2_calls c N2 theta_2 @ over_sheath2_calls c @
                          finish_calls c
                            (armour1_prop_calls c N theta @ between_armour_prop_calls c theta @
                             armour2_prop_calls c N2 theta_2 @ over_sheath2_prop_calls c),
                        status = Completed\<rparr>))
             else
               \<lparr>calls = layer1 @ over_sheath1_calls c @
                  finish_calls c
                    (armour1_prop_calls c N theta @ between_armour_prop_calls c theta @
                     over_sheath1_prop_calls c),
                status = Completed\<rparr>)))"

subsection \<open>Sampling the solved field\<close>

text \<open>
  The solver is outside the script: its answers to \<open>mo_getb\<close> (the two components of B) and
  \<open>mo_getj\<close> (the current density) are parameters. The value read by \<open>mo_getpointvalues\<close> at
  line 566 is never used, and the figures drawn from the series are not part of the model.
\<close>

record solution =
  mo_getb :: "real \<Rightarrow> real \<Rightarrow> complex \<times> complex"
  mo_getj :: "real \<Rightarrow> real \<Rightarrow> complex"

text \<open>Python's \<open>int\<close> of a float truncates towards zero.\<close>

definition py_int :: "real \<Rightarrow> int" where
  "py_int x = (if 0 \<le> x then \<lfloor>x\<rfloor> else \<lceil>x\<rceil>)"

text \<open>\<open>np.sqrt(np.abs(b[0])**2+np.abs(b[1])**2)*10**6\<close> (lines 589, 595 and 622).\<close>

definition b_magnitude :: "complex \<times> complex \<Rightarrow> real" where
  "b_magnitude b = sqrt ((cmod (fst b))\<^sup>2 + (cmod (snd b))\<^sup>2) * 10 ^ 6"

text \<open>The electric field of one sample of the near profile \<open>p\<close> (lines 590--593).\<close>

definition e_near :: "cable \<Rightarrow> materials \<Rightarrow> int \<Rightarrow> complex \<Rightarrow> real" where
  "e_near c m p e =
    (if burial_depth c \<noteq> 0 \<and> real_of_int (py_int (R_cable_total c) + 100 * p) \<le> burial_depth c
     then (cmod e * 10 ^ 6 / seabed_conductivity m) * 10 ^ 6
     else (cmod e * 10 ^ 6 / seawater_conductivity m) * 10 ^ 6)"

text \<open>The electric field of one sample of the far profile \<open>p\<close> (lines 596--599).\<close>

definition e_far :: "cable \<Rightarrow> materials \<Rightarrow> int \<Rightarrow> complex \<Rightarrow> real" where
  "e_far c m p e =
    (if burial_depth c \<noteq> 0 \<and> real_of_int (py_int (R_cable_total c) + 1000 * p) \<le> burial_depth c
     then (cmod e * 10 ^ 6 / seabed_conductivity m) * 10 ^ 6
     else (cmod e * 10 ^ 6 / seawater_conductivity m) * 10 ^ 6)"

text \<open>The electric field of the sample at height \<open>n\<close> of the radial scan (lines 623--626).\<close>

definition e_radial :: "cable \<Rightarrow> materials \<Rightarrow> int \<Rightarrow> complex \<Rightarrow> real" where
  "e_radial c m n e =
    (if burial_depth c \<noteq> 0 \<and> real_of_int n \<le> burial_depth c
     then (cmod e * 10 ^ 6 / seabed_conductivity m) * 10 ^ 6
     else (cmod e * 10 ^ 6 / seawater_conductivity m) * 10 ^ 6)"

text \<open>
  The series of the loops of lines 575--606, for \<open>p\<close> in \<open>range(1,4)\<close> and \<open>n\<close> in
  \<open>range(-500,500,1)\<close>, and of the radial scan of lines 618--630, for \<open>n\<close> in
  \<open>range(int(R_cable_total)+100,3000,1)\<close>.
\<close>

definition b_value :: "cable \<Rightarrow> solution \<Rightarrow> int \<Rightarrow> real list" where
  "b_value c s p =
     map (\<lambda>n. b_magnitude (mo_getb s (real_of_int n) (real_of_int (py_int (R_cable_total c) + 100 * p))))
       [- 500..499]"

definition e_value :: "cable \<Rightarrow> materials \<Rightarrow> solution \<Rightarrow> int \<Rightarrow> real list" where
  "e_value c m s p =
     map (\<lambda>n. e_near c m p (mo_getj s (real_of_int n) (real_of_int (py_int (R_cable_total c) + 100 * p))))
       [- 500..499]"

definition b_value_far :: "cable \<Rightarrow> solution \<Rightarrow> int \<Rightarrow> real list" where
  "b_value_far c s p =
     map (\<lambda>n. b_magnitude (mo_getb s (real_of_int n) (real_of_int (py_int (R_cable_total c) + 1000 * p))))
       [- 500..499]"

definition e_value_far :: "cable \<Rightarrow> materials \<Rightarrow> solution \<Rightarrow> int \<Rightarrow> real list" where
  "e_value_far c m s p =
     map (\<lambda>n. e_far c m p (mo_getj s (real_of_int n) (real_of_int (py_int (R_cable_total c) + 1000 * p))))
       [- 500..499]"

definition b_value3 :: "cable \<Rightarrow> solution \<Rightarrow> real list" where
  "b_value3 c s =
     map (\<lambda>n. b_magnitude (mo_getb s 0 (real_of_int n))) [py_int (R_cable_total c) + 100..2999]"

definition e_value3 :: "cable \<Rightarrow> materials \<Rightarrow> solution \<Rightarrow> real list" where
  "e_value3 c m s =
     map (\<lambda>n. e_radial c m n (mo_getj s 0 (real_of_int n))) [py_int (R_cable_total c) + 100..2999]"


subsection \<open>Reading a run\<close>

text \<open>
  What the statements below read off the list of calls: the straight lines, the assignments
  of the seabed material, the conductivity a material was registered with (the sixth argument
  of \<open>mi_addmaterial\<close>, the fifth number of its list), and the label points.
\<close>

fun is_drawline :: "femm_call \<Rightarrow> bool" where
  "is_drawline (mi_drawline p q) = True"
| "is_drawline k = False"

fun is_seabed_prop :: "femm_call \<Rightarrow> bool" where
  "is_seabed_prop (mi_setblockprop name automesh meshsize incircuit magdir grp turns) =
     (name = ''seabed'')"
| "is_seabed_prop k = False"

fun is_geometry :: "femm_call \<Rightarrow> bool" where
  "is_geometry (mi_drawline p q) = True"
| "is_geometry (mi_drawarc p q angle maxseg) = True"
| "is_geometry (mi_addblocklabel p) = True"
| "is_geometry k = False"

fun conductivity_of :: "string \<Rightarrow> femm_call list \<Rightarrow> real option" where
  "conductivity_of name [] = None"
| "conductivity_of name (mi_addmaterial n args # ks) =
     (if n = name then Some (args ! 4) else conductivity_of name ks)"
| "conductivity_of name (k # ks) = conductivity_of name ks"

fun label_points :: "femm_call list \<Rightarrow> point list" where
  "label_points [] = []"
| "label_points (mi_addblocklabel p # ks) = p # label_points ks"
| "label_points (k # ks) = label_points ks"

text \<open>The four layer thicknesses of a conductor and the four radii derived from them, in order.\<close>

definition layer_thicknesses :: "cable \<Rightarrow> real list" where
  "layer_thicknesses c = [cond_screen c, insulation c, insul_screen_NM c, insul_screen_ME c]"

definition layer_radii :: "cable \<Rightarrow> real list" where
  "layer_radii c = [r_cond_screen c, r_cond_insul c, r_cond_insu_screen_NM c, r_cond_total c]"

subsection \<open>Particular cables\<close>

text \<open>
  The conductors of the file: its area and its four layer thicknesses. The bounds computed
  below hold for every cable with these conductors.
\<close>

definition Main_conductors :: "cable \<Rightarrow> bool" where
  "Main_conductors c \<longleftrightarrow>
     A_cond c = 50 \<and> cond_screen c = 0.2 \<and> insulation c = 3.4 \<and> insul_screen_NM c = 3.0
     \<and> insul_screen_ME c = 0.2"

text \<open>
  The cable of the file buried 300 mm deep, less than \<open>limit_fine\<close>; with a negative bedding
  thickness, which brings the armour ring next to the axis; and with armour wires of radius
  25 mm.
\<close>

definition shallow_cable :: cable where
  "shallow_cable = Main_cable\<lparr>burial_depth := 300\<rparr>"

definition thin_cable :: cable where
  "thin_cable = Main_cable\<lparr>bedding := - 25.3\<rparr>"

definition thick_wire_cable :: cable where
  "thick_wire_cable = Main_cable\<lparr>r_armour := 25\<rparr>"

text \<open>
  The angle of the phasor \<open>-0.5 + 0.866j\<close>, which is that of \<open>-1 + 1.732j\<close>: a little more
  than 120 degrees.
\<close>

definition phase2 :: real where
  "phase2 = pi - arctan 1.732"

section \<open>Properties\<close>

subsection \<open>Angles\<close>

lemma radians_60: "radians 60 = pi / 3"
  by (simp add: radians_def)

lemma cos60_half: "cos60 = 1 / 2"
  by (simp add: cos60_def radians_60 cos_60)

lemma sin60_sqrt3: "sin60 = sqrt 3 / 2"
  by (simp add: sin60_def radians_60 sin_60)

subsection \<open>The material of the conductors\<close>

lemma script_core: "\<exists>rest. calls (script c m) = core_calls c m @ rest"
  by (simp add: script_def Let_def split: sum.splits)

lemma conductivity_of_core:
  "conductivity_of ''copper_conductors'' (core_calls c m @ rest) = Some (seawater_conductivity m * (1 / 10 ^ 6))"
  by (simp add: core_calls_def start_calls_def material_calls_def)

lemma core_copper: "core_calls c (m\<lparr>copper_conductivity := x\<rparr>) = core_calls c m"
  by (simp add: core_calls_def material_calls_def)

lemma script_copper: "script c (m\<lparr>copper_conductivity := x\<rparr>) = script c m"
  by (simp add: script_def core_copper cong: sum.case_cong)

lemma e_near_copper: "e_near c (m\<lparr>copper_conductivity := x\<rparr>) p e = e_near c m p e"
  by (simp add: e_near_def)

lemma e_far_copper: "e_far c (m\<lparr>copper_conductivity := x\<rparr>) p e = e_far c m p e"
  by (simp add: e_far_def)

lemma e_radial_copper: "e_radial c (m\<lparr>copper_conductivity := x\<rparr>) n e = e_radial c m n e"
  by (simp add: e_radial_def)

text \<open>
  Claim C1. The material \<open>copper_conductors\<close> is registered with the conductivity of
  seawater times \<open>10\<^sup>-\<^sup>6\<close>, which is \<open>5 / 10 ^ 6\<close> for the values of the file and not the
  \<open>58\<close> that copper would give. The parameter \<open>copper_conductivity\<close> is read nowhere:
  changing it changes neither the run (materials, geometry, circuits) nor any sampled series.
\<close>

theorem copper_conductivity_no_effect:
  "conductivity_of ''copper_conductors'' (calls (script c m)) = Some (seawater_conductivity m * (1 / 10 ^ 6))
   \<and> conductivity_of ''copper_conductors'' (calls (script c Main_materials)) = Some (5 / 10 ^ 6)
   \<and> conductivity_of ''copper_conductors'' (calls (script c Main_materials))
       \<noteq> Some (copper_conductivity Main_materials * (1 / 10 ^ 6))
   \<and> script c (m\<lparr>copper_conductivity := x\<rparr>) = script c m
   \<and> e_value c (m\<lparr>copper_conductivity := x\<rparr>) s p = e_value c m s p
   \<and> e_value_far c (m\<lparr>copper_conductivity := x\<rparr>) s p = e_value_far c m s p
   \<and> e_value3 c (m\<lparr>copper_conductivity := x\<rparr>) s = e_value3 c m s"
proof -
  have a: "conductivity_of ''copper_conductors'' (calls (script c m')) = Some (seawater_conductivity m' * (1 / 10 ^ 6))" for m'
    using script_core [of c m'] conductivity_of_core [of c m'] by auto
  have b: "script c (m\<lparr>copper_conductivity := x\<rparr>) = script c m"
    by (rule script_copper)
  have c: "e_value c (m\<lparr>copper_conductivity := x\<rparr>) s p = e_value c m s p"
    by (simp only: e_value_def e_near_copper)
  have d: "e_value_far c (m\<lparr>copper_conductivity := x\<rparr>) s p = e_value_far c m s p"
    by (simp only: e_value_far_def e_far_copper)
  have e: "e_value3 c (m\<lparr>copper_conductivity := x\<rparr>) s = e_value3 c m s"
    by (simp only: e_value3_def e_radial_copper)
  show ?thesis using a [of m] a [of Main_materials] b c d e
    by (simp add: Main_materials_def)
qed

subsection \<open>The count of a ring\<close>

text \<open>
  Claim C2. For a ring of positive radius \<open>R\<close>, wires of positive radius \<open>r_w\<close> and a positive
  gap \<open>g\<close>, the count is \<open>N = \<lfloor>2\<pi>R / (2 r_w + g)\<rfloor>\<close>, and
  \<open>N (2 r_w + g) \<le> 2\<pi>R < (N + 1) (2 r_w + g)\<close>.
\<close>

theorem armour_count_floor:
  assumes "0 < R" and "0 < r_w" and "0 < g"
  shows "\<exists>N. NbrOfArmourElem_of R r_w g = Inr N
           \<and> N = \<lfloor>(2 * pi * R) / (2 * r_w + g)\<rfloor>
           \<and> real_of_int N * (2 * r_w + g) \<le> 2 * pi * R
           \<and> 2 * pi * R < (real_of_int N + 1) * (2 * r_w + g)"
proof -
  let ?w = "2 * r_w + g"
  let ?N = "\<lfloor>(2 * pi * R) / ?w\<rfloor>"
  have w: "0 < ?w" using assms by simp
  have 1: "NbrOfArmourElem_of R r_w g = Inr ?N"
    using w by (simp add: NbrOfArmourElem_of_def)
  have "real_of_int ?N * ?w \<le> ((2 * pi * R) / ?w) * ?w"
    using w by (intro mult_right_mono) auto
  then have 2: "real_of_int ?N * ?w \<le> 2 * pi * R"
    using w by simp
  have "(2 * pi * R) / ?w < real_of_int ?N + 1" by linarith
  then have "((2 * pi * R) / ?w) * ?w < (real_of_int ?N + 1) * ?w"
    using w by (intro mult_strict_right_mono) auto
  then have 3: "2 * pi * R < (real_of_int ?N + 1) * ?w"
    using w by simp
  from 1 2 3 show ?thesis by blast
qed

theorem armour_count_floor_witness:
  "(0::real) < 25 \<and> (0::real) < 2 \<and> (0::real) < 0.05
   \<and> (\<exists>N. NbrOfArmourElem_of 25 2 0.05 = Inr N
           \<and> N = \<lfloor>(2 * pi * 25) / (2 * 2 + 0.05)\<rfloor>
           \<and> real_of_int N * (2 * 2 + 0.05) \<le> 2 * pi * 25
           \<and> 2 * pi * 25 < (real_of_int N + 1) * (2 * 2 + 0.05))"
  using armour_count_floor [of 25 2 "0.05"] by simp

subsection \<open>The triangle of the conductors\<close>

text \<open>
  Claim C6. For every positive spacing \<open>d\<close> the three conductor centres are pairwise at
  distance exactly \<open>d\<close>: an equilateral triangle of side \<open>d\<close>. Its centroid is the origin and
  its base lies at \<open>y = - d \<surd>3 / 6\<close>, the apothem below the centroid. These centres are the first
  label of each conductor in the drawing, at the spacing \<open>cond_center\<close> of the cable.
\<close>

theorem conductor_triangle:
  assumes "0 < d"
  shows "distance (center1 d) (center2 d) = d
       \<and> distance (center2 d) (center3 d) = d
       \<and> distance (center1 d) (center3 d) = d
       \<and> snd (center1 d) = - (d * sqrt 3 / 6) \<and> snd (center3 d) = - (d * sqrt 3 / 6)
       \<and> fst (center1 d) + fst (center2 d) + fst (center3 d) = 0
       \<and> snd (center1 d) + snd (center2 d) + snd (center3 d) = 0
       \<and> conductor1_calls c ! 0 = mi_addblocklabel (center1 (cond_center c))
       \<and> conductor2_calls c ! 0 = mi_addblocklabel (center2 (cond_center c))
       \<and> conductor3_calls c ! 0 = mi_addblocklabel (center3 (cond_center c))"
proof -
  have d2: "sqrt (d\<^sup>2) = d" using assms by simp
  have e1: "(d * cos60 - 0)\<^sup>2 + (- delta_y_triangle_of d - (d * sin60 - delta_y_triangle_of d))\<^sup>2 = d\<^sup>2"
    by (simp add: cos60_half sin60_sqrt3 power2_eq_square algebra_simps)
  have e2: "(0 - (- d * cos60))\<^sup>2 + (d * sin60 - delta_y_triangle_of d - (- delta_y_triangle_of d))\<^sup>2 = d\<^sup>2"
    by (simp add: cos60_half sin60_sqrt3 power2_eq_square algebra_simps)
  have e3: "(d * cos60 - (- d * cos60))\<^sup>2 + (- delta_y_triangle_of d - (- delta_y_triangle_of d))\<^sup>2 = d\<^sup>2"
    by (simp add: cos60_half power2_eq_square algebra_simps)
  have 1: "distance (center1 d) (center2 d) = d"
    unfolding distance_def center1_def center2_def fst_conv snd_conv e1 by (rule d2)
  have 2: "distance (center2 d) (center3 d) = d"
    unfolding distance_def center2_def center3_def fst_conv snd_conv e2 by (rule d2)
  have 3: "distance (center1 d) (center3 d) = d"
    unfolding distance_def center1_def center3_def fst_conv snd_conv e3 by (rule d2)
  have 4: "snd (center1 d) = - (d * sqrt 3 / 6)" "snd (center3 d) = - (d * sqrt 3 / 6)"
    by (simp_all add: center1_def center3_def delta_y_triangle_of_def)
  have 5: "fst (center1 d) + fst (center2 d) + fst (center3 d) = 0"
    by (simp add: center1_def center2_def center3_def)
  have 6: "snd (center1 d) + snd (center2 d) + snd (center3 d) = 0"
    by (simp add: center1_def center2_def center3_def delta_y_triangle_of_def sin60_sqrt3)
  have 7: "conductor1_calls c ! 0 = mi_addblocklabel (center1 (cond_center c))"
    "conductor2_calls c ! 0 = mi_addblocklabel (center2 (cond_center c))"
    "conductor3_calls c ! 0 = mi_addblocklabel (center3 (cond_center c))"
    by (simp_all add: conductor1_calls_def conductor2_calls_def conductor3_calls_def
        center1_def center2_def center3_def delta_y_triangle_def)
  from 1 2 3 4 5 6 7 show ?thesis by blast
qed

theorem conductor_triangle_witness:
  "(0::real) < 2 \<and> distance (center1 2) (center2 2) = 2 \<and> distance (center2 2) (center3 2) = 2
   \<and> distance (center1 2) (center3 2) = 2"
  using conductor_triangle [of 2] by simp

subsection \<open>The radii of the layers\<close>

text \<open>
  Claim C7. For a positive conductor area and non-negative layer thicknesses, the base radius
  is \<open>\<surd>(A / \<pi>)\<close>, the \<open>k\<close>-th radius is the base radius plus the first \<open>k\<close> thicknesses, and
  the radii \<open>r_cond, r_cond_screen, r_cond_insul, r_cond_insu_screen_NM, r_cond_total\<close> are
  non-decreasing; there are as many layer radii as thicknesses.
\<close>

theorem layer_radii_cumulative:
  assumes "0 < A_cond c" and "\<forall>t \<in> set (layer_thicknesses c). 0 \<le> t"
  shows "r_cond c = sqrt (A_cond c / pi) \<and> 0 < r_cond c
       \<and> (\<forall>k < length (layer_thicknesses c).
             layer_radii c ! k = r_cond c + sum_list (take (Suc k) (layer_thicknesses c)))
       \<and> sorted (r_cond c # layer_radii c)
       \<and> length (layer_radii c) = length (layer_thicknesses c)"
proof -
  have t: "0 \<le> cond_screen c" "0 \<le> insulation c" "0 \<le> insul_screen_NM c" "0 \<le> insul_screen_ME c"
    using assms(2) by (simp_all add: layer_thicknesses_def)
  have 1: "0 < r_cond c" using assms(1) by (simp add: r_cond_def)
  have 2: "layer_radii c ! k = r_cond c + sum_list (take (Suc k) (layer_thicknesses c))"
    if "k < length (layer_thicknesses c)" for k
  proof -
    from that have "k = 0 \<or> k = 1 \<or> k = 2 \<or> k = 3"
      by (auto simp: layer_thicknesses_def)
    then show ?thesis
      by (auto simp: layer_thicknesses_def layer_radii_def r_cond_screen_def r_cond_insul_def
          r_cond_insu_screen_NM_def r_cond_total_def numeral_2_eq_2 numeral_3_eq_3)
  qed
  have 3: "sorted (r_cond c # layer_radii c)"
    using t by (simp add: layer_radii_def r_cond_screen_def r_cond_insul_def
        r_cond_insu_screen_NM_def r_cond_total_def)
  have 4: "length (layer_radii c) = length (layer_thicknesses c)"
    by (simp add: layer_radii_def layer_thicknesses_def)
  from 1 2 3 4 show ?thesis by (simp add: r_cond_def)
qed

theorem layer_radii_cumulative_witness:
  "0 < A_cond Main_cable \<and> list_all (\<lambda>t. 0 \<le> t) (layer_thicknesses Main_cable)
   \<and> r_cond Main_cable = sqrt (50 / pi)
   \<and> sorted (r_cond Main_cable # layer_radii Main_cable)
   \<and> length (layer_radii Main_cable) = 4"
proof -
  have h: "0 < A_cond Main_cable" "\<forall>t \<in> set (layer_thicknesses Main_cable). 0 \<le> t"
    by (simp_all add: Main_cable_def layer_thicknesses_def)
  have a: "A_cond Main_cable = 50"
    by (simp add: Main_cable_def)
  show ?thesis
    using h layer_radii_cumulative [OF h] by (auto simp add: a layer_thicknesses_def)
qed

subsection \<open>Straight lines and seabed regions of a run\<close>

lemma concat_map_Nil: "concat (map (\<lambda>i. []) xs) = []"
  by (induction xs) simp_all

lemma no_lines_geometry:
  "filter is_drawline (start_calls c) = []"
  "filter is_drawline (material_calls m) = []"
  "filter is_drawline (conductor1_calls c) = []"
  "filter is_drawline (conductor2_calls c) = []"
  "filter is_drawline (conductor3_calls c) = []"
  "filter is_drawline filling_calls = []"
  "filter is_drawline (bedding_calls c) = []"
  "filter is_drawline (armour1_calls c N theta) = []"
  "filter is_drawline (between_armour_calls c theta) = []"
  "filter is_drawline (armour2_calls c N theta) = []"
  "filter is_drawline (over_sheath1_calls c) = []"
  "filter is_drawline (over_sheath2_calls c) = []"
  by (simp_all add: start_calls_def material_calls_def conductor1_calls_def conductor2_calls_def
      conductor3_calls_def filling_calls_def bedding_calls_def armour1_calls_def
      between_armour_calls_def armour2_calls_def over_sheath1_calls_def over_sheath2_calls_def
      filter_concat o_def concat_map_Nil)

lemma no_lines_props:
  "filter is_drawline (environment_prop_calls c) = []"
  "filter is_drawline (armour1_prop_calls c N theta) = []"
  "filter is_drawline (between_armour_prop_calls c theta) = []"
  "filter is_drawline (armour2_prop_calls c N theta) = []"
  "filter is_drawline (over_sheath1_prop_calls c) = []"
  "filter is_drawline (over_sheath2_prop_calls c) = []"
  "filter is_drawline (inner_prop_calls c) = []"
  "filter is_drawline (circuit_calls c) = []"
  "filter is_drawline solve_calls = []"
  by (simp_all add: environment_prop_calls_def armour1_prop_calls_def
      between_armour_prop_calls_def armour2_prop_calls_def over_sheath1_prop_calls_def
      over_sheath2_prop_calls_def inner_prop_calls_def circuit_calls_def solve_calls_def
      filter_concat o_def concat_map_Nil numeral_2_eq_2)

lemma lines_core:
  "filter is_drawline (core_calls c m) = filter is_drawline square_calls @ filter is_drawline (seabed_calls c)"
  by (simp add: core_calls_def no_lines_geometry)

lemma no_lines_finish:
  "filter is_drawline ring_props = [] \<Longrightarrow> filter is_drawline (finish_calls c ring_props) = []"
  by (simp add: finish_calls_def no_lines_props)

lemma lines_script:
  "filter is_drawline (calls (script c m)) = filter is_drawline square_calls @ filter is_drawline (seabed_calls c)"
  by (simp add: script_def Let_def lines_core no_lines_geometry no_lines_props no_lines_finish
      split: sum.splits)

lemma no_seabed_geometry:
  "filter is_seabed_prop (core_calls c m) = []"
  "filter is_seabed_prop (armour1_calls c N theta) = []"
  "filter is_seabed_prop (between_armour_calls c theta) = []"
  "filter is_seabed_prop (armour2_calls c N theta) = []"
  "filter is_seabed_prop (over_sheath1_calls c) = []"
  "filter is_seabed_prop (over_sheath2_calls c) = []"
  by (simp_all add: core_calls_def start_calls_def material_calls_def square_calls_def
      seabed_calls_def conductor1_calls_def conductor2_calls_def
      conductor3_calls_def filling_calls_def bedding_calls_def armour1_calls_def
      between_armour_calls_def armour2_calls_def over_sheath1_calls_def over_sheath2_calls_def
      filter_concat o_def concat_map_Nil)

lemma no_seabed_props:
  "filter is_seabed_prop (armour1_prop_calls c N theta) = []"
  "filter is_seabed_prop (between_armour_prop_calls c theta) = []"
  "filter is_seabed_prop (armour2_prop_calls c N theta) = []"
  "filter is_seabed_prop (over_sheath1_prop_calls c) = []"
  "filter is_seabed_prop (over_sheath2_prop_calls c) = []"
  "filter is_seabed_prop (inner_prop_calls c) = []"
  "filter is_seabed_prop (circuit_calls c) = []"
  "filter is_seabed_prop solve_calls = []"
  by (simp_all add: armour1_prop_calls_def
      between_armour_prop_calls_def armour2_prop_calls_def over_sheath1_prop_calls_def
      over_sheath2_prop_calls_def inner_prop_calls_def circuit_calls_def solve_calls_def
      filter_concat o_def concat_map_Nil numeral_2_eq_2)

lemma no_seabed_environment:
  "\<not> (burial_depth c \<noteq> 0 \<and> burial_depth c > limit_fine) \<Longrightarrow>
     filter is_seabed_prop (environment_prop_calls c) = []"
  by (simp add: environment_prop_calls_def numeral_2_eq_2)

lemma no_seabed_finish:
  "\<not> (burial_depth c \<noteq> 0 \<and> burial_depth c > limit_fine) \<Longrightarrow>
   filter is_seabed_prop ring_props = [] \<Longrightarrow>
     filter is_seabed_prop (finish_calls c ring_props) = []"
  by (simp add: finish_calls_def no_seabed_props no_seabed_environment)

lemma no_seabed_script:
  "\<not> (burial_depth c \<noteq> 0 \<and> burial_depth c > limit_fine) \<Longrightarrow>
     filter is_seabed_prop (calls (script c m)) = []"
  by (simp add: script_def Let_def no_seabed_geometry no_seabed_props no_seabed_finish
      split: sum.splits)

lemma e_sample_surface:
  assumes "burial_depth c = 0"
  shows "e_near c m p e = (cmod e * 10 ^ 6 / seawater_conductivity m) * 10 ^ 6"
    and "e_far c m p e = (cmod e * 10 ^ 6 / seawater_conductivity m) * 10 ^ 6"
    and "e_radial c m n e = (cmod e * 10 ^ 6 / seawater_conductivity m) * 10 ^ 6"
  using assms by (simp_all add: e_near_def e_far_def e_radial_def)

lemma e_series_surface:
  assumes "burial_depth c = 0"
  shows "e_value c m s p =
           map (\<lambda>n. (cmod (mo_getj s (real_of_int n) (real_of_int (py_int (R_cable_total c) + 100 * p)))
                        * 10 ^ 6 / seawater_conductivity m) * 10 ^ 6) [- 500..499]"
    and "e_value_far c m s p =
           map (\<lambda>n. (cmod (mo_getj s (real_of_int n) (real_of_int (py_int (R_cable_total c) + 1000 * p)))
                        * 10 ^ 6 / seawater_conductivity m) * 10 ^ 6) [- 500..499]"
    and "e_value3 c m s =
           map (\<lambda>n. (cmod (mo_getj s 0 (real_of_int n)) * 10 ^ 6 / seawater_conductivity m) * 10 ^ 6)
             [py_int (R_cable_total c) + 100..2999]"
  by (simp_all only: e_value_def e_value_far_def e_value3_def e_sample_surface [OF assms])

lemma e_series_length:
  "length (e_value c m s p) = 1000" "length (e_value_far c m s p) = 1000"
  by (simp_all only: e_value_def e_value_far_def length_map length_upto)

text \<open>
  Claim C8. With a burial depth of zero the seabed stage draws nothing: the only straight lines
  of the run are the eight sides of the two squares, and no region is given the seabed
  material. Every sample is divided by the conductivity of seawater, whatever its offset: the
  three series \<open>e_value\<close>, \<open>e_value_far\<close> and \<open>e_value3\<close> are the current densities the solver
  returns along their lines, each scaled by \<open>10\<^sup>6 / seawater_conductivity \<cdot> 10\<^sup>6\<close>, over the
  1000 abscissae of a near or far profile and over the heights of the radial scan.
\<close>

theorem surface_laid:
  assumes "burial_depth c = 0"
  shows "seabed_calls c = []
       \<and> filter is_drawline (calls (script c m)) = filter is_drawline square_calls
       \<and> filter is_seabed_prop (calls (script c m)) = []
       \<and> e_near c m p e = (cmod e * 10 ^ 6 / seawater_conductivity m) * 10 ^ 6
       \<and> e_far c m p e = (cmod e * 10 ^ 6 / seawater_conductivity m) * 10 ^ 6
       \<and> e_radial c m n e = (cmod e * 10 ^ 6 / seawater_conductivity m) * 10 ^ 6
       \<and> e_value c m s p =
           map (\<lambda>n. (cmod (mo_getj s (real_of_int n) (real_of_int (py_int (R_cable_total c) + 100 * p)))
                        * 10 ^ 6 / seawater_conductivity m) * 10 ^ 6) [- 500..499]
       \<and> e_value_far c m s p =
           map (\<lambda>n. (cmod (mo_getj s (real_of_int n) (real_of_int (py_int (R_cable_total c) + 1000 * p)))
                        * 10 ^ 6 / seawater_conductivity m) * 10 ^ 6) [- 500..499]
       \<and> e_value3 c m s =
           map (\<lambda>n. (cmod (mo_getj s 0 (real_of_int n)) * 10 ^ 6 / seawater_conductivity m) * 10 ^ 6)
             [py_int (R_cable_total c) + 100..2999]
       \<and> length (e_value c m s p) = 1000
       \<and> length (e_value_far c m s p) = 1000"
proof -
  have 1: "seabed_calls c = []" using assms by (simp add: seabed_calls_def)
  have 2: "filter is_drawline (calls (script c m)) = filter is_drawline square_calls"
    by (simp add: lines_script 1)
  have 3: "filter is_seabed_prop (calls (script c m)) = []"
    using assms by (intro no_seabed_script) simp
  from 1 2 3 e_sample_surface(1) [OF assms, of m p e] e_sample_surface(2) [OF assms, of m p e]
    e_sample_surface(3) [OF assms, of m n e]
    e_series_surface(1) [OF assms, of m s p] e_series_surface(2) [OF assms, of m s p]
    e_series_surface(3) [OF assms, of m s] e_series_length [of c m s p]
  show ?thesis by blast
qed

theorem surface_laid_witness:
  "burial_depth (Main_cable\<lparr>burial_depth := 0\<rparr>) = 0
   \<and> filter is_drawline (calls (script (Main_cable\<lparr>burial_depth := 0\<rparr>) Main_materials))
       = filter is_drawline square_calls
   \<and> filter is_seabed_prop (calls (script (Main_cable\<lparr>burial_depth := 0\<rparr>) Main_materials)) = []
   \<and> e_near (Main_cable\<lparr>burial_depth := 0\<rparr>) Main_materials 1 1 = 200000000000
   \<and> e_radial (Main_cable\<lparr>burial_depth := 0\<rparr>) Main_materials 129 1 = 200000000000
   \<and> e_value (Main_cable\<lparr>burial_depth := 0\<rparr>) Main_materials \<lparr>mo_getb = (\<lambda>x y. (0, 0)), mo_getj = (\<lambda>x y. 1)\<rparr> 1
       = map (\<lambda>n. 200000000000) [- 500..499]
   \<and> e_value_far (Main_cable\<lparr>burial_depth := 0\<rparr>) Main_materials \<lparr>mo_getb = (\<lambda>x y. (0, 0)), mo_getj = (\<lambda>x y. 1)\<rparr> 3
       = map (\<lambda>n. 200000000000) [- 500..499]
   \<and> e_value3 (Main_cable\<lparr>burial_depth := 0\<rparr>) Main_materials \<lparr>mo_getb = (\<lambda>x y. (0, 0)), mo_getj = (\<lambda>x y. 1)\<rparr>
       = map (\<lambda>n. 200000000000) [py_int (R_cable_total (Main_cable\<lparr>burial_depth := 0\<rparr>)) + 100..2999]"
proof -
  let ?c = "Main_cable\<lparr>burial_depth := 0\<rparr>"
  let ?s = "\<lparr>mo_getb = (\<lambda>x y. (0, 0)), mo_getj = (\<lambda>x y. 1)\<rparr> :: solution"
  have h: "burial_depth ?c = 0" by simp
  have k: "(cmod (mo_getj ?s x y) * 10 ^ 6 / seawater_conductivity Main_materials) * 10 ^ 6 = 200000000000" for x y
    by (simp add: Main_materials_def)
  have u: "(cmod 1 * 10 ^ 6 / seawater_conductivity Main_materials) * 10 ^ 6 = 200000000000"
    by (simp add: Main_materials_def)
  note w1 = surface_laid [OF h, of Main_materials 1 1 129 ?s]
  note w3 = surface_laid [OF h, of Main_materials 3 1 129 ?s]
  have a: "e_near ?c Main_materials 1 1 = 200000000000" "e_radial ?c Main_materials 129 1 = 200000000000"
    using w1 by (simp_all only: u)
  have b: "e_value ?c Main_materials ?s 1 = map (\<lambda>n. 200000000000) [- 500..499]"
    "e_value3 ?c Main_materials ?s = map (\<lambda>n. 200000000000) [py_int (R_cable_total ?c) + 100..2999]"
    using w1 by (simp_all only: k)
  have d: "e_value_far ?c Main_materials ?s 3 = map (\<lambda>n. 200000000000) [- 500..499]"
    using w3 by (simp only: k)
  from h w1 a b d show ?thesis by blast
qed

subsection \<open>Bounds on \<open>\<pi>\<close> and on the radii of the cable of the file\<close>

lemma cos_taylor_bound:
  assumes "0 < x"
  shows "\<bar>cos x - (\<Sum>m<n. cos_coeff m * x ^ m)\<bar> \<le> x ^ n / fact n"
proof (cases "n = 0")
  case True
  then show ?thesis using abs_cos_le_one [of x] by simp
next
  case False
  then obtain t where t: "cos x = (\<Sum>m<n. cos_coeff m * x ^ m) + (cos (t + 1/2 * real n * pi) / fact n) * x ^ n"
    using Maclaurin_cos_expansion2 [of x n] assms by auto
  have "\<bar>(cos (t + 1/2 * real n * pi) / fact n) * x ^ n\<bar> \<le> 1 / fact n * x ^ n"
    using assms abs_cos_le_one [of "t + 1/2 * real n * pi"]
    by (simp add: abs_mult divide_right_mono mult_right_mono)
  with t show ?thesis by simp
qed

lemma cos_157_pos: "0 < cos (157/100 :: real)"
proof -
  have "\<bar>cos (157/100) - (\<Sum>m<10. cos_coeff m * (157/100 :: real) ^ m)\<bar> \<le> (157/100) ^ 10 / fact 10"
    by (rule cos_taylor_bound) simp
  moreover have "(\<Sum>m<10. cos_coeff m * (157/100 :: real) ^ m) - (157/100) ^ 10 / fact 10 > 0"
    by (simp add: cos_coeff_def lessThan_nat_numeral lessThan_Suc fact_numeral power_divide)
  ultimately show ?thesis by linarith
qed

lemma cos_1575_neg: "cos (1575/1000 :: real) < 0"
proof -
  have "\<bar>cos (1575/1000) - (\<Sum>m<8. cos_coeff m * (1575/1000 :: real) ^ m)\<bar> \<le> (1575/1000) ^ 8 / fact 8"
    by (rule cos_taylor_bound) simp
  moreover have "(\<Sum>m<8. cos_coeff m * (1575/1000 :: real) ^ m) + (1575/1000) ^ 8 / fact 8 < 0"
    by (simp add: cos_coeff_def lessThan_nat_numeral lessThan_Suc fact_numeral power_divide)
  ultimately show ?thesis by linarith
qed

lemma pi_gt_314: "314/100 < pi"
proof (rule ccontr)
  assume "\<not> 314/100 < pi"
  then have "pi/2 \<le> 157/100" by simp
  then have "cos (157/100) \<le> cos (pi/2)"
    using pi_ge_two by (intro cos_monotone_0_pi_le) auto
  with cos_157_pos show False by simp
qed

lemma pi_lt_315: "pi < 315/100"
proof (rule ccontr)
  assume "\<not> pi < 315/100"
  then have "1575/1000 \<le> pi/2" by simp
  then have "cos (pi/2) \<le> cos (1575/1000)"
    by (intro cos_monotone_0_pi_le) auto
  with cos_1575_neg show False by simp
qed

lemma sqrt3_bounds: "1732/1000 < sqrt 3" "sqrt 3 < 17321/10000"
proof -
  show "1732/1000 < sqrt 3"
    by (rule real_less_rsqrt) (simp add: power2_eq_square)
  show "sqrt 3 < 17321/10000"
    by (rule real_less_lsqrt) (simp_all add: power2_eq_square)
qed

text \<open>The conductor radius for an area of 50 square millimetres.\<close>

lemma r_cond_50:
  assumes "A_cond c = 50"
  shows "3984/1000 < r_cond c" "r_cond c < 3991/1000"
proof -
  have lo: "(3984/1000)\<^sup>2 < 50 / pi"
  proof -
    have "(3984/1000)\<^sup>2 * pi < (3984/1000)\<^sup>2 * (315/100)"
      using pi_lt_315 by (intro mult_strict_left_mono) simp_all
    also have "\<dots> < 50" by (simp add: power2_eq_square)
    finally show ?thesis by (simp add: pos_less_divide_eq)
  qed
  have hi: "50 / pi < (3991/1000)\<^sup>2"
  proof -
    have "50 < (3991/1000)\<^sup>2 * (314/100 :: real)" by (simp add: power2_eq_square)
    also have "\<dots> < (3991/1000)\<^sup>2 * pi"
      using pi_gt_314 by (intro mult_strict_left_mono) simp_all
    finally show ?thesis by (simp add: pos_divide_less_eq)
  qed
  show "3984/1000 < r_cond c"
    unfolding r_cond_def assms by (rule real_less_rsqrt) (rule lo)
  show "r_cond c < 3991/1000"
    unfolding r_cond_def assms by (rule real_less_lsqrt) (use hi in simp_all)
qed

text \<open>
  The radius of the first armour ring is the bedding thickness and the wire radius added to a
  length that only the conductors fix; for the conductors of the file that length is about
  23.36 mm.
\<close>

lemma R_armour_split:
  "R_armour c = (2 * r_cond_total c + cond_surf) * (sqrt 3 / 3) + r_cond_total c + bedding c + r_armour c"
  by (simp add: R_armour_def cond_center_def delta_y_triangle_def delta_y_triangle_of_def
      sin60_sqrt3 algebra_simps)

lemma R_armour_Main:
  assumes "Main_conductors c"
  shows "23351/1000 + bedding c + r_armour c < R_armour c"
    and "R_armour c < 23368/1000 + bedding c + r_armour c"
proof -
  have A: "A_cond c = 50" using assms by (simp add: Main_conductors_def)
  have t: "r_cond_total c = r_cond c + 68/10"
    using assms by (simp add: Main_conductors_def r_cond_total_def)
  let ?r = "r_cond c"
  let ?s = "sqrt 3"
  have r: "3984/1000 < ?r" "?r < 3991/1000" using r_cond_50 [OF A] by simp_all
  have s: "1732/1000 < ?s" "?s < 17321/10000" using sqrt3_bounds by simp_all
  define p where "p = (2 * ?r + 138/10) * ?s"
  have eq: "R_armour c = p / 3 + ?r + 68/10 + bedding c + r_armour c"
    by (simp add: p_def R_armour_split t cond_surf_def algebra_simps)
  have "(2 * (3984/1000) + 138/10) * (1732/1000) < (2 * ?r + 138/10) * ?s"
    using r s by (intro mult_strict_mono) simp_all
  then have lo: "376/10 + 102/1000 < p" by (simp add: p_def)
  have "(2 * ?r + 138/10) * ?s < (2 * (3991/1000) + 138/10) * (17321/10000)"
    using r s by (intro mult_strict_mono) simp_all
  then have hi: "p < 377287/10000" by (simp add: p_def)
  show "23351/1000 + bedding c + r_armour c < R_armour c"
    unfolding eq using lo r by linarith
  show "R_armour c < 23368/1000 + bedding c + r_armour c"
    unfolding eq using hi r by linarith
qed

lemma NbrOfArmourElem_value:
  assumes "0 < 2 * r_armour c + space"
    and "real_of_int N * (2 * r_armour c + space) \<le> 2 * pi * R_armour c"
    and "2 * pi * R_armour c < (real_of_int N + 1) * (2 * r_armour c + space)"
  shows "NbrOfArmourElem c = Inr N"
proof -
  have "\<lfloor>2 * pi * R_armour c / (2 * r_armour c + space)\<rfloor> = N"
    using assms by (intro floor_unique) (simp_all add: pos_le_divide_eq pos_divide_less_eq)
  then show ?thesis
    using assms(1) by (simp add: NbrOfArmourElem_def NbrOfArmourElem_of_def)
qed

lemma Main_conductors_Main [simp]:
  "Main_conductors Main_cable"
  "Main_conductors (Main_cable\<lparr>bedding := b\<rparr>)"
  "Main_conductors (Main_cable\<lparr>r_armour := r\<rparr>)"
  "Main_conductors (Main_cable\<lparr>burial_depth := d\<rparr>)"
  by (simp_all add: Main_conductors_def Main_cable_def)

lemma two_pi_R_bounds:
  assumes "a < R" "R < b" "0 \<le> a"
  shows "2 * (314/100) * a < 2 * pi * R" "2 * pi * R < 2 * (315/100) * b"
proof -
  have "(314/100) * a < pi * R"
    using assms pi_gt_314 by (intro mult_strict_mono) simp_all
  then show "2 * (314/100) * a < 2 * pi * R" by simp
  have "pi * R < (315/100) * b"
    using assms pi_lt_315 by (intro mult_strict_mono) simp_all
  then show "2 * pi * R < 2 * (315/100) * b" by simp
qed

lemma NbrOfArmourElem_Main: "NbrOfArmourElem Main_cable = Inr 39"
proof -
  have f: "bedding Main_cable = 2/10" "r_armour Main_cable = 2"
    by (simp_all add: Main_cable_def)
  have R: "25551/1000 < R_armour Main_cable" "R_armour Main_cable < 25568/1000"
    using R_armour_Main [of Main_cable] by (simp_all add: f)
  have P: "2 * (314/100) * (25551/1000) < 2 * pi * R_armour Main_cable"
    "2 * pi * R_armour Main_cable < 2 * (315/100) * (25568/1000)"
    using two_pi_R_bounds [OF R] by simp_all
  show ?thesis
    using P by (intro NbrOfArmourElem_value) (simp_all add: f space_def)
qed

lemma R_armour_Main_bounds: "25551/1000 < R_armour Main_cable" "R_armour Main_cable < 25568/1000"
proof -
  have f: "bedding Main_cable = 2/10" "r_armour Main_cable = 2"
    by (simp_all add: Main_cable_def)
  show "25551/1000 < R_armour Main_cable" "R_armour Main_cable < 25568/1000"
    using R_armour_Main [of Main_cable] by (simp_all add: f)
qed

subsection \<open>The count of the cable of the file\<close>

lemma NbrOfArmourElem_r2:
  "NbrOfArmourElem (c\<lparr>r_armour := 2\<rparr>) = Inr \<lfloor>2 * pi * R_armour (c\<lparr>r_armour := 2\<rparr>) / 4.05\<rfloor>"
  by (simp add: NbrOfArmourElem_def NbrOfArmourElem_of_def space_def)

lemma NbrOfArmourElem_of_25: "NbrOfArmourElem_of 25 2 0.05 = Inr 38"
proof -
  have "\<lfloor>2 * pi * 25 / (2 * 2 + 0.05)\<rfloor> = (38::int)"
    using pi_gt_314 pi_lt_315 by (intro floor_unique) simp_all
  then show ?thesis by (simp add: NbrOfArmourElem_of_def)
qed

text \<open>
  Claim C10, as amended. With a wire radius of 2.00 mm and a gap of 0.05 mm the count of the
  first ring is \<open>\<lfloor>2\<pi>R / 4.05\<rfloor>\<close> for its radius \<open>R\<close>. A ring of radius exactly 25 mm would
  hold 38 wires; the ring of the cable of the file has a radius between 25.551 and 25.568 mm
  and holds 39.
\<close>

theorem armour_count_Main:
  "NbrOfArmourElem (c\<lparr>r_armour := 2\<rparr>) = Inr \<lfloor>2 * pi * R_armour (c\<lparr>r_armour := 2\<rparr>) / 4.05\<rfloor>
   \<and> NbrOfArmourElem_of 25 2 0.05 = Inr 38
   \<and> 25.551 < R_armour Main_cable \<and> R_armour Main_cable < 25.568
   \<and> NbrOfArmourElem Main_cable = Inr 39"
  using NbrOfArmourElem_r2 [of c] NbrOfArmourElem_of_25 R_armour_Main_bounds NbrOfArmourElem_Main
  by simp

text \<open>Claim C10 as stated fails: the count of the cable of the file is not 38.\<close>

theorem armour_count_Main_not_38: "NbrOfArmourElem Main_cable \<noteq> Inr 38"
  by (simp add: NbrOfArmourElem_Main)

subsection \<open>A shallow burial\<close>

lemma R_cable_total_shallow: "py_int (R_cable_total shallow_cable) = 29"
proof -
  have f: "bedding shallow_cable = 2/10" "r_armour shallow_cable = 2" "r_armour_2 shallow_cable = 0"
    "over_sheath shallow_cable = 2"
    by (simp_all add: shallow_cable_def Main_cable_def)
  have "Main_conductors shallow_cable" by (simp add: shallow_cable_def)
  from R_armour_Main [OF this]
  have R: "25551/1000 < R_armour shallow_cable" "R_armour shallow_cable < 25568/1000"
    by (simp_all add: f)
  have t: "R_cable_total shallow_cable = R_armour shallow_cable + 401/100"
    by (simp add: R_cable_total_def f dist1_def)
  have "\<lfloor>R_cable_total shallow_cable\<rfloor> = 29"
    unfolding t using R by (intro floor_unique) simp_all
  moreover have "0 \<le> R_cable_total shallow_cable" unfolding t using R by simp
  ultimately show ?thesis by (simp add: py_int_def)
qed

text \<open>
  Claim C4. Buried 300 mm deep, the cable of the file gets no seabed split and no seabed
  region, so that the whole domain is seawater; yet the sample of the first near profile, at
  height 129 mm, and the radial sample at 200 mm are divided by the conductivity of the seabed,
  which gives \<open>10\<^sup>1\<^sup>2\<close> for a unit current density where seawater gives \<open>2 \<cdot> 10\<^sup>1\<^sup>1\<close>.
\<close>

theorem shallow_burial_sampler:
  "0 < burial_depth shallow_cable \<and> burial_depth shallow_cable \<le> limit_fine
   \<and> seabed_calls shallow_cable = []
   \<and> filter is_drawline (calls (script shallow_cable Main_materials)) = filter is_drawline square_calls
   \<and> filter is_seabed_prop (calls (script shallow_cable Main_materials)) = []
   \<and> py_int (R_cable_total shallow_cable) + 100 * 1 = 129
   \<and> e_near shallow_cable Main_materials 1 e = (cmod e * 10 ^ 6 / seabed_conductivity Main_materials) * 10 ^ 6
   \<and> e_near shallow_cable Main_materials 1 1 = 10 ^ 12
   \<and> (cmod 1 * 10 ^ 6 / seawater_conductivity Main_materials) * 10 ^ 6 = 2 * 10 ^ 11
   \<and> e_radial shallow_cable Main_materials 200 1 = 10 ^ 12"
proof -
  have b: "burial_depth shallow_cable = 300"
    by (simp add: shallow_cable_def)
  have 1: "seabed_calls shallow_cable = []"
    by (simp add: seabed_calls_def b limit_fine_def)
  have 2: "filter is_drawline (calls (script shallow_cable Main_materials)) = filter is_drawline square_calls"
    by (simp add: lines_script 1)
  have 3: "filter is_seabed_prop (calls (script shallow_cable Main_materials)) = []"
    by (intro no_seabed_script) (simp add: b limit_fine_def)
  have 4: "e_near shallow_cable Main_materials 1 e = (cmod e * 10 ^ 6 / seabed_conductivity Main_materials) * 10 ^ 6" for e
    by (simp add: e_near_def R_cable_total_shallow b)
  have 5: "seabed_conductivity Main_materials = 1" "seawater_conductivity Main_materials = 5"
    by (simp_all add: Main_materials_def)
  have 6: "e_radial shallow_cable Main_materials 200 1 = 10 ^ 12"
    by (simp add: e_radial_def b 5)
  show ?thesis
    using 1 2 3 4 [of e] 4 [of 1] 6 by (simp add: b 5 limit_fine_def R_cable_total_shallow)
qed

subsection \<open>A count of zero\<close>

lemma geometry_core:
  "filter is_geometry (core_calls c m) =
     square_calls @ seabed_calls c @ conductor1_calls c @ conductor2_calls c @
     conductor3_calls c @ filling_calls @ bedding_calls c"
  by (simp add: core_calls_def start_calls_def material_calls_def square_calls_def
      seabed_calls_def conductor1_calls_def conductor2_calls_def conductor3_calls_def
      filling_calls_def bedding_calls_def)

lemma no_solver_core:
  "mi_analyze \<notin> set (core_calls c m)" "mi_saveas name \<notin> set (core_calls c m)"
  by (simp_all add: core_calls_def start_calls_def material_calls_def square_calls_def
      seabed_calls_def conductor1_calls_def conductor2_calls_def conductor3_calls_def
      filling_calls_def bedding_calls_def)

lemma script_zero_count:
  assumes "NbrOfArmourElem c = Inr 0"
  shows "script c m = \<lparr>calls = core_calls c m, status = Raised ZeroDivisionError\<rparr>"
  using assms by (simp add: script_def theta_of_def)

text \<open>
  A count of zero needs a parameter that is not physical: with a non-negative area, non-negative
  thicknesses and a non-negative wire radius the first ring holds at least one wire, because
  the conductors are at least \<open>cond_surf\<close> apart.
\<close>

lemma armour_count_positive:
  assumes "0 \<le> A_cond c" and "\<forall>t \<in> set (layer_thicknesses c). 0 \<le> t"
    and "0 \<le> bedding c" and "0 \<le> r_armour c"
  shows "\<exists>N. NbrOfArmourElem c = Inr N \<and> 1 \<le> N"
proof -
  have t: "0 \<le> cond_screen c" "0 \<le> insulation c" "0 \<le> insul_screen_NM c" "0 \<le> insul_screen_ME c"
    using assms(2) by (simp_all add: layer_thicknesses_def)
  have "0 \<le> r_cond c" using assms(1) by (simp add: r_cond_def)
  then have rt: "0 \<le> r_cond_total c" using t by (simp add: r_cond_total_def)
  have "0 \<le> r_cond_total c * (2 * (sqrt 3 / 3) + 1)"
    using rt by (intro mult_nonneg_nonneg) simp_all
  moreover have "R_armour c = r_cond_total c * (2 * (sqrt 3 / 3) + 1) + cond_surf * (sqrt 3 / 3) + bedding c + r_armour c"
    by (simp add: R_armour_split algebra_simps)
  ultimately have R: "(2/10) * (1732/1000 / 3) + r_armour c \<le> R_armour c"
    using sqrt3_bounds(1) assms(3) by (simp add: cond_surf_def)
  have w: "0 < 2 * r_armour c + space" using assms(4) by (simp add: space_def)
  have "(314/100) * ((2/10) * (1732/1000 / 3) + r_armour c) \<le> pi * R_armour c"
    using pi_gt_314 R assms(4) by (intro mult_mono) simp_all
  then have "1 * (2 * r_armour c + space) \<le> 2 * pi * R_armour c"
    using assms(4) by (simp add: space_def)
  then have "1 \<le> 2 * pi * R_armour c / (2 * r_armour c + space)"
    using w by (simp add: pos_le_divide_eq)
  then have "1 \<le> \<lfloor>2 * pi * R_armour c / (2 * r_armour c + space)\<rfloor>"
    by (simp add: le_floor_iff)
  then show ?thesis
    using w by (simp add: NbrOfArmourElem_def NbrOfArmourElem_of_def)
qed

text \<open>
  Claim C3, as amended. When the count of the first ring is zero, the run ends with
  ZeroDivisionError at the computation of \<open>theta\<close>. By then the squares, the seabed split if
  any, the three conductors and the bedding have been drawn; no armour wire is drawn, the
  model is not saved and the solver is not called.
\<close>

theorem zero_count_aborts:
  assumes "NbrOfArmourElem c = Inr 0"
  shows "status (script c m) = Raised ZeroDivisionError
       \<and> calls (script c m) = core_calls c m
       \<and> filter is_geometry (calls (script c m)) =
           square_calls @ seabed_calls c @ conductor1_calls c @ conductor2_calls c @
           conductor3_calls c @ filling_calls @ bedding_calls c
       \<and> mi_analyze \<notin> set (calls (script c m))
       \<and> mi_saveas name \<notin> set (calls (script c m))"
  by (simp add: script_zero_count [OF assms] geometry_core no_solver_core)

lemma NbrOfArmourElem_thin: "NbrOfArmourElem thin_cable = Inr 0"
proof -
  have f: "bedding thin_cable = - 253/10" "r_armour thin_cable = 2"
    by (simp_all add: thin_cable_def Main_cable_def)
  have "Main_conductors thin_cable" by (simp add: thin_cable_def)
  from R_armour_Main [OF this]
  have R: "51/1000 < R_armour thin_cable" "R_armour thin_cable < 68/1000"
    by (simp_all add: f)
  have P: "2 * (314/100) * (51/1000) < 2 * pi * R_armour thin_cable"
    "2 * pi * R_armour thin_cable < 2 * (315/100) * (68/1000)"
    using two_pi_R_bounds [OF R] by simp_all
  show ?thesis
    using P by (intro NbrOfArmourElem_value) (simp_all add: f space_def)
qed

theorem zero_count_aborts_witness:
  "NbrOfArmourElem thin_cable = Inr 0
   \<and> status (script thin_cable Main_materials) = Raised ZeroDivisionError
   \<and> calls (script thin_cable Main_materials) = core_calls thin_cable Main_materials
   \<and> mi_analyze \<notin> set (calls (script thin_cable Main_materials))"
  using NbrOfArmourElem_thin zero_count_aborts [OF NbrOfArmourElem_thin, of Main_materials "''SubseaCable_model.fem''"]
  by blast

text \<open>
  Claim C3 as stated fails: with a bedding thickness of -25.3 mm the count is zero, and the run
  has made 63 drawing calls when it is interrupted.
\<close>

theorem zero_count_geometry_emitted:
  "NbrOfArmourElem thin_cable = Inr 0
   \<and> status (script thin_cable Main_materials) = Raised ZeroDivisionError
   \<and> length (filter is_geometry (calls (script thin_cable Main_materials))) = 63"
proof -
  have "burial_depth thin_cable = 2000"
    by (simp add: thin_cable_def Main_cable_def)
  then have "length (seabed_calls thin_cable) = 2"
    by (simp add: seabed_calls_def limit_fine_def)
  then show ?thesis
    by (simp add: NbrOfArmourElem_thin script_zero_count [OF NbrOfArmourElem_thin] geometry_core
        square_calls_def conductor1_calls_def conductor2_calls_def conductor3_calls_def
        filling_calls_def bedding_calls_def)
qed

subsection \<open>The wires of a ring\<close>

lemma theta_of_pos: "1 \<le> N \<Longrightarrow> theta_of N = Inr (2 * pi / real_of_int N)"
  by (simp add: theta_of_def radians_def)

lemma chord_square:
  fixes R a b :: real
  shows "(R * sin a - R * sin b)\<^sup>2 + (R * cos a - R * cos b)\<^sup>2 = (2 * R * sin ((a - b) / 2))\<^sup>2"
proof -
  define p q u v where "p = sin a" and "q = cos a" and "u = sin b" and "v = cos b"
  define w where "w = sin ((a - b) / 2)"
  have one: "p * p + q * q = 1" "u * u + v * v = 1"
    by (simp_all add: p_def q_def u_def v_def power2_eq_square [symmetric])
  have "2 * ((a - b) / 2) = a - b" by simp
  then have "cos (a - b) = 1 - 2 * (sin ((a - b) / 2))\<^sup>2"
    using cos_double_sin [of "(a - b) / 2"] by (simp only:)
  then have half: "q * v + p * u = 1 - 2 * (w * w)"
    by (simp add: cos_diff p_def q_def u_def v_def w_def power2_eq_square)
  have "(R * p - R * u)\<^sup>2 + (R * q - R * v)\<^sup>2
      = R * R * (p * p + q * q) + R * R * (u * u + v * v) - 2 * (R * R) * (q * v + p * u)"
    by (simp add: power2_eq_square algebra_simps)
  also have "\<dots> = R * R + R * R - 2 * (R * R) * (1 - 2 * (w * w))"
    by (simp only: one half mult_1_right)
  also have "\<dots> = (2 * R * w)\<^sup>2"
    by (simp add: power2_eq_square algebra_simps)
  finally show ?thesis
    by (simp only: p_def q_def u_def v_def w_def)
qed

lemma wire_distance:
  assumes "0 \<le> R"
  shows "distance (wire_center R theta i) (wire_center R theta j)
           = 2 * R * \<bar>sin (real_of_int (i - j) * theta / 2)\<bar>"
proof -
  have e: "((real_of_int i - 1) * theta - (real_of_int j - 1) * theta) / 2 = real_of_int (i - j) * theta / 2"
    by (simp add: algebra_simps)
  have "distance (wire_center R theta i) (wire_center R theta j)
      = sqrt ((2 * R * sin (((real_of_int i - 1) * theta - (real_of_int j - 1) * theta) / 2))\<^sup>2)"
    by (simp only: distance_def wire_center_def fst_conv snd_conv chord_square)
  also have "\<dots> = sqrt ((2 * R * sin (real_of_int (i - j) * theta / 2))\<^sup>2)"
    by (simp only: e)
  also have "\<dots> = \<bar>2 * R * sin (real_of_int (i - j) * theta / 2)\<bar>"
    by (rule real_sqrt_abs)
  finally show ?thesis using assms by (simp add: abs_mult)
qed

lemma sin_ge_ends:
  assumes "0 \<le> a" "a \<le> pi / 2" "a \<le> x" "x \<le> pi - a"
  shows "sin a \<le> sin x"
proof (cases "x \<le> pi / 2")
  case True
  with assms show ?thesis by (intro sin_monotone_2pi_le) simp_all
next
  case False
  have "sin a \<le> sin (pi - x)"
    using assms False by (intro sin_monotone_2pi_le) simp_all
  then show ?thesis by simp
qed

lemma sin_step_le:
  assumes "1 \<le> k" "k \<le> N - 1"
  shows "sin (pi / real_of_int N) \<le> sin (real_of_int k * pi / real_of_int N)"
proof -
  have N: "2 \<le> N" using assms by simp
  then have Np: "0 < real_of_int N" by simp
  have a: "pi / real_of_int N \<le> pi / 2"
    using N by (intro divide_left_mono) simp_all
  have b: "pi / real_of_int N \<le> real_of_int k * pi / real_of_int N"
    using assms Np by (intro divide_right_mono) simp_all
  have "real_of_int k * pi \<le> real_of_int (N - 1) * pi"
    using assms by (intro mult_right_mono) simp_all
  then have "real_of_int k * pi / real_of_int N \<le> real_of_int (N - 1) * pi / real_of_int N"
    using Np by (intro divide_right_mono) simp_all
  also have "\<dots> = pi - pi / real_of_int N"
    using Np by (simp add: field_simps)
  finally have c: "real_of_int k * pi / real_of_int N \<le> pi - pi / real_of_int N" .
  show ?thesis using Np a b c by (intro sin_ge_ends) simp_all
qed

lemma wire_distance_ge:
  assumes "0 \<le> R" "1 \<le> i" "i \<le> N" "1 \<le> j" "j \<le> N" "i \<noteq> j"
  shows "2 * R * sin (pi / real_of_int N)
           \<le> distance (wire_center R (2 * pi / real_of_int N) i) (wire_center R (2 * pi / real_of_int N) j)"
proof -
  define k where "k = \<bar>i - j\<bar>"
  have k: "1 \<le> k" "k \<le> N - 1" using assms by (simp_all add: k_def)
  have "\<bar>sin (real_of_int (i - j) * pi / real_of_int N)\<bar> = \<bar>sin (real_of_int k * pi / real_of_int N)\<bar>"
  proof (cases "j \<le> i")
    case True
    then show ?thesis by (simp add: k_def)
  next
    case False
    then have "real_of_int (i - j) = - real_of_int k" by (simp add: k_def)
    then show ?thesis by simp
  qed
  moreover have "sin (pi / real_of_int N) \<le> sin (real_of_int k * pi / real_of_int N)"
    using k by (rule sin_step_le)
  ultimately have "sin (pi / real_of_int N) \<le> \<bar>sin (real_of_int (i - j) * pi / real_of_int N)\<bar>"
    by linarith
  then have "2 * R * sin (pi / real_of_int N) \<le> 2 * R * \<bar>sin (real_of_int (i - j) * pi / real_of_int N)\<bar>"
    using assms(1) by (intro mult_left_mono) simp_all
  also have "\<dots> = distance (wire_center R (2 * pi / real_of_int N) i) (wire_center R (2 * pi / real_of_int N) j)"
    using wire_distance [OF assms(1), of "2 * pi / real_of_int N" i j] by simp
  finally show ?thesis .
qed

lemma labels_armour1: "label_points (armour1_calls c N theta) = wire_centers (R_armour c) N theta"
proof -
  have "label_points (concat (map (\<lambda>i. [mi_addblocklabel (f i), mi_drawarc (g i) (h i) 180 3, mi_drawarc (h i) (g i) 180 3]) xs))
      = map f xs" for f g h :: "int \<Rightarrow> point" and xs
    by (induction xs) simp_all
  then show ?thesis
    by (simp add: armour1_calls_def wire_centers_def wire_center_def cong: map_cong)
qed

lemma sin_lower:
  fixes x :: real
  assumes x: "0 \<le> x"
  shows "x - x ^ 3 / 6 \<le> sin x"
proof -
  have "\<bar>sin x - (\<Sum>m<3. sin_coeff m * x ^ m)\<bar> \<le> inverse (fact 3) * \<bar>x\<bar> ^ 3"
    by (rule Maclaurin_sin_bound)
  moreover have "(\<Sum>m<3. sin_coeff m * x ^ m) = x"
    by (simp add: sin_coeff_def lessThan_nat_numeral lessThan_Suc)
  moreover have "inverse (fact 3) * \<bar>x\<bar> ^ 3 = x ^ 3 / 6"
    using x by (simp add: fact_numeral)
  ultimately show ?thesis by linarith
qed

lemma sin_pi_39: "804/10000 < sin (pi / 39)"
proof -
  let ?x = "pi / 39"
  have lo: "314/3900 < ?x" using pi_gt_314 by simp
  have hi: "?x < 315/3900" using pi_lt_315 by simp
  have "?x ^ 3 < (315/3900) ^ 3"
    using lo hi by (intro power_strict_mono) simp_all
  then have "?x - (315/3900) ^ 3 / 6 < ?x - ?x ^ 3 / 6" by simp
  also have "\<dots> \<le> sin ?x" by (rule sin_lower) simp
  finally have "?x - (315/3900) ^ 3 / 6 < sin ?x" .
  moreover have "(804/10000 :: real) < 314/3900 - (315/3900) ^ 3 / 6"
    by (simp add: power3_eq_cube)
  ultimately show ?thesis using lo by linarith
qed

lemma Main_wires_apart: "2 * r_armour Main_cable < 2 * R_armour Main_cable * sin (pi / 39)"
proof -
  have "(25551/1000) * (804/10000) < R_armour Main_cable * sin (pi / 39)"
    using R_armour_Main_bounds sin_pi_39 by (intro mult_strict_mono) simp_all
  moreover have "r_armour Main_cable = 2" by (simp add: Main_cable_def)
  ultimately show ?thesis by simp
qed

text \<open>
  Claim C9, as amended. A ring of \<open>N \<ge> 1\<close> wires has its wires at the angles
  \<open>(i - 1) \<cdot> 360\<degree>/N\<close>, for \<open>i\<close> from 1 to \<open>N\<close>: these are the labels the first armour loop
  draws. Two wires \<open>i\<close> and \<open>j\<close> of the ring have their centres \<open>2 R |sin ((i - j) \<pi> / N)|\<close>
  apart, which is at least the chord \<open>2 R sin (\<pi> / N)\<close> of neighbours when they are distinct. The
  wires are apart when that chord is at least two wire radii; for the 39 wires of the cable
  of the file it is. The count itself bounds the arc \<open>2 \<pi> R / N\<close> and not the chord.
\<close>

theorem ring_spacing:
  assumes "1 \<le> N" and "0 \<le> R"
  shows "theta_of N = Inr (radians (360 / real_of_int N))
       \<and> radians (360 / real_of_int N) = 2 * pi / real_of_int N
       \<and> wire_centers R N (radians (360 / real_of_int N))
           = map (\<lambda>i. (R * sin (real_of_int (i - 1) * radians (360 / real_of_int N)),
                        R * cos (real_of_int (i - 1) * radians (360 / real_of_int N)))) [1..N]
       \<and> label_points (armour1_calls c N theta) = wire_centers (R_armour c) N theta
       \<and> (\<forall>i \<in> {1..N}. \<forall>j \<in> {1..N}.
             distance (wire_center R (radians (360 / real_of_int N)) i)
                      (wire_center R (radians (360 / real_of_int N)) j)
               = 2 * R * \<bar>sin (real_of_int (i - j) * pi / real_of_int N)\<bar>)
       \<and> (\<forall>i \<in> {1..N}. \<forall>j \<in> {1..N}. i \<noteq> j \<longrightarrow>
             2 * R * sin (pi / real_of_int N)
               \<le> distance (wire_center R (radians (360 / real_of_int N)) i)
                           (wire_center R (radians (360 / real_of_int N)) j))
       \<and> NbrOfArmourElem Main_cable = Inr 39
       \<and> 2 * r_armour Main_cable < 2 * R_armour Main_cable * sin (pi / 39)"
proof -
  have r: "radians (360 / real_of_int N) = 2 * pi / real_of_int N"
    using assms(1) by (simp add: radians_def)
  have 1: "theta_of N = Inr (radians (360 / real_of_int N))"
    using assms(1) by (simp add: theta_of_def)
  have 2: "wire_centers R N (radians (360 / real_of_int N))
           = map (\<lambda>i. (R * sin (real_of_int (i - 1) * radians (360 / real_of_int N)),
                        R * cos (real_of_int (i - 1) * radians (360 / real_of_int N)))) [1..N]"
    by (simp add: wire_centers_def wire_center_def)
  have 3: "distance (wire_center R (radians (360 / real_of_int N)) i)
                      (wire_center R (radians (360 / real_of_int N)) j)
               = 2 * R * \<bar>sin (real_of_int (i - j) * pi / real_of_int N)\<bar>" for i j
    using wire_distance [OF assms(2), of "2 * pi / real_of_int N" i j] by (simp add: r)
  have 4: "2 * R * sin (pi / real_of_int N)
               \<le> distance (wire_center R (radians (360 / real_of_int N)) i)
                           (wire_center R (radians (360 / real_of_int N)) j)"
    if "i \<in> {1..N}" "j \<in> {1..N}" "i \<noteq> j" for i j
    unfolding r using assms(2) that by (intro wire_distance_ge) simp_all
  show ?thesis
    using r 1 2 3 4 labels_armour1 [of c N theta] NbrOfArmourElem_Main Main_wires_apart
    by blast
qed

theorem ring_spacing_witness:
  "(1::int) \<le> 2 \<and> (0::real) \<le> 3
   \<and> theta_of 2 = Inr (radians (360 / 2))
   \<and> distance (wire_center 3 (radians (360 / 2)) 1) (wire_center 3 (radians (360 / 2)) 2) = 6
   \<and> 2 * 3 * sin (pi / 2) \<le> distance (wire_center 3 (radians (360 / 2)) 1) (wire_center 3 (radians (360 / 2)) 2)"
proof -
  have h: "(1::int) \<le> 2" "(0::real) \<le> 3" by simp_all
  note w = ring_spacing [OF h, of Main_cable 0]
  have t: "theta_of 2 = Inr (radians (360 / 2))"
    using w by simp
  have "\<forall>i \<in> {1..2}. \<forall>j \<in> {1..2}.
          distance (wire_center 3 (radians (360 / real_of_int 2)) i)
                   (wire_center 3 (radians (360 / real_of_int 2)) j)
            = 2 * 3 * \<bar>sin (real_of_int (i - j) * pi / real_of_int 2)\<bar>"
    using w by blast
  then have "distance (wire_center 3 (radians (360 / real_of_int 2)) 1)
                   (wire_center 3 (radians (360 / real_of_int 2)) 2)
            = 2 * 3 * \<bar>sin (real_of_int (1 - 2) * pi / real_of_int 2)\<bar>"
    by simp
  then have d: "distance (wire_center 3 (radians (360 / 2)) 1) (wire_center 3 (radians (360 / 2)) 2) = 6"
    by simp
  show ?thesis using t d by simp
qed

lemma NbrOfArmourElem_thick: "NbrOfArmourElem thick_wire_cable = Inr 6"
proof -
  have f: "bedding thick_wire_cable = 2/10" "r_armour thick_wire_cable = 25"
    by (simp_all add: thick_wire_cable_def Main_cable_def)
  have "Main_conductors thick_wire_cable" by (simp add: thick_wire_cable_def)
  from R_armour_Main [OF this]
  have R: "48551/1000 < R_armour thick_wire_cable" "R_armour thick_wire_cable < 48568/1000"
    by (simp_all add: f)
  have P: "2 * (314/100) * (48551/1000) < 2 * pi * R_armour thick_wire_cable"
    "2 * pi * R_armour thick_wire_cable < 2 * (315/100) * (48568/1000)"
    using two_pi_R_bounds [OF R] by simp_all
  show ?thesis
    using P by (intro NbrOfArmourElem_value) (simp_all add: f space_def)
qed

lemma distance_sixth:
  assumes "0 \<le> R"
  shows "distance (wire_center R (pi / 3) 1) (wire_center R (pi / 3) 2) = R"
proof -
  have "(0 - R * (sqrt 3 / 2))\<^sup>2 + (R - R * (1 / 2))\<^sup>2 = R\<^sup>2"
    by (simp add: power2_eq_square algebra_simps)
  then show ?thesis
    using assms by (simp add: distance_def wire_center_def sin_60 cos_60)
qed

text \<open>
  Claim C9 as stated fails: with armour wires of radius 25 mm the ring of the cable of the
  file holds six wires, one every 60 degrees, and the centres of the first two are closer
  than two drawn radii.
\<close>

theorem wires_overlap:
  "NbrOfArmourElem thick_wire_cable = Inr 6
   \<and> theta_of 6 = Inr (pi / 3)
   \<and> distance (wire_center (R_armour thick_wire_cable) (pi / 3) 1)
        (wire_center (R_armour thick_wire_cable) (pi / 3) 2)
       < 2 * (r_armour thick_wire_cable - dist1)"
proof -
  have f: "bedding thick_wire_cable = 2/10" "r_armour thick_wire_cable = 25"
    by (simp_all add: thick_wire_cable_def Main_cable_def)
  have "Main_conductors thick_wire_cable" by (simp add: thick_wire_cable_def)
  from R_armour_Main [OF this]
  have R: "48551/1000 < R_armour thick_wire_cable" "R_armour thick_wire_cable < 48568/1000"
    by (simp_all add: f)
  have "theta_of 6 = Inr (pi / 3)"
    by (simp add: theta_of_def radians_def)
  moreover have "distance (wire_center (R_armour thick_wire_cable) (pi / 3) 1)
        (wire_center (R_armour thick_wire_cable) (pi / 3) 2) = R_armour thick_wire_cable"
    using R by (intro distance_sixth) simp
  ultimately show ?thesis
    using R by (simp add: NbrOfArmourElem_thick f dist1_def)
qed

subsection \<open>The three circuits\<close>

lemma icoil_Complex:
  "icoil1 c = Complex (AMPS c) 0"
  "icoil2 c = Complex (- (AMPS c / 2)) (AMPS c * (866/1000))"
  "icoil3 c = Complex (- (AMPS c / 2)) (- (AMPS c * (866/1000)))"
  by (simp_all add: icoil1_def icoil2_def icoil3_def complex_eq_iff)

lemma icoil_sum: "icoil1 c + icoil2 c + icoil3 c = 0"
  by (simp add: icoil_Complex complex_eq_iff)

lemma AMPS_pos: "0 < AMPS_RMS c \<Longrightarrow> 0 < AMPS c"
  by (simp add: AMPS_def)

lemma cmod_icoil1: "0 < AMPS_RMS c \<Longrightarrow> cmod (icoil1 c) = AMPS c"
  using AMPS_pos [of c] by (simp add: icoil_Complex complex_norm)

lemma sqrt_square_mult: "0 \<le> a \<Longrightarrow> sqrt (a\<^sup>2 * k) = a * sqrt k"
  by (simp add: real_sqrt_mult)

lemma cmod_icoil23:
  assumes "0 < AMPS_RMS c"
  shows "cmod (icoil2 c) = AMPS c * sqrt (999956/1000000)"
    and "cmod (icoil3 c) = AMPS c * sqrt (999956/1000000)"
proof -
  have A: "0 \<le> AMPS c" using AMPS_pos [OF assms] by simp
  have e: "(- (AMPS c / 2))\<^sup>2 + (AMPS c * (866/1000))\<^sup>2 = (AMPS c)\<^sup>2 * (999956/1000000)"
    by (simp add: power2_eq_square algebra_simps)
  have e': "(- (AMPS c / 2))\<^sup>2 + (- (AMPS c * (866/1000)))\<^sup>2 = (AMPS c)\<^sup>2 * (999956/1000000)"
    by (simp add: power2_eq_square algebra_simps)
  show "cmod (icoil2 c) = AMPS c * sqrt (999956/1000000)"
    by (simp only: icoil_Complex complex_norm e sqrt_square_mult [OF A])
  show "cmod (icoil3 c) = AMPS c * sqrt (999956/1000000)"
    by (simp only: icoil_Complex complex_norm e' sqrt_square_mult [OF A])
qed

lemma sqrt_magnitude_bounds:
  "999977/1000000 < sqrt (999956/1000000)" "sqrt (999956/1000000) < 999979/1000000"
proof -
  show "999977/1000000 < sqrt (999956/1000000)"
    by (rule real_less_rsqrt) (simp add: power2_eq_square)
  show "sqrt (999956/1000000) < 999979/1000000"
    by (rule real_less_lsqrt) (simp_all add: power2_eq_square)
qed

lemma magnitude_gap:
  assumes "0 < AMPS_RMS c"
  shows "21/1000000 * AMPS c < cmod (icoil1 c) - cmod (icoil2 c)"
    and "cmod (icoil1 c) - cmod (icoil2 c) < 23/1000000 * AMPS c"
proof -
  have A: "0 < AMPS c" using assms by (rule AMPS_pos)
  let ?s = "sqrt (999956/1000000)"
  have d: "cmod (icoil1 c) - cmod (icoil2 c) = AMPS c * (1 - ?s)"
    by (simp add: cmod_icoil1 [OF assms] cmod_icoil23 [OF assms] algebra_simps)
  have "AMPS c * (21/1000000) < AMPS c * (1 - ?s)"
    using A sqrt_magnitude_bounds by (intro mult_strict_left_mono) simp_all
  then show "21/1000000 * AMPS c < cmod (icoil1 c) - cmod (icoil2 c)"
    by (simp add: d mult.commute)
  have "AMPS c * (1 - ?s) < AMPS c * (23/1000000)"
    using A sqrt_magnitude_bounds by (intro mult_strict_left_mono) simp_all
  then show "cmod (icoil1 c) - cmod (icoil2 c) < 23/1000000 * AMPS c"
    by (simp add: d mult.commute)
qed

lemma sqrt_1732: "sqrt (1 + (1732/1000)\<^sup>2) = 2 * sqrt (999956/1000000)"
proof -
  have "1 + (1732/1000 :: real)\<^sup>2 = 2\<^sup>2 * (999956/1000000)"
    by (simp add: power2_eq_square)
  then have "sqrt (1 + (1732/1000)\<^sup>2) = sqrt (2\<^sup>2 * (999956/1000000))"
    by (simp only:)
  also have "\<dots> = 2 * sqrt (999956/1000000)"
    by (rule sqrt_square_mult) simp
  finally show ?thesis .
qed

lemma cis_phase2:
  "cis phase2 = Complex (- (1 / (2 * sqrt (999956/1000000)))) ((1732/1000) / (2 * sqrt (999956/1000000)))"
proof -
  have "cos phase2 = - (1 / sqrt (1 + (1732/1000)\<^sup>2))"
    unfolding phase2_def cos_pi_minus by (simp add: cos_arctan)
  moreover have "sin phase2 = (1732/1000) / sqrt (1 + (1732/1000)\<^sup>2)"
    unfolding phase2_def sin_pi_minus by (simp add: sin_arctan)
  ultimately show ?thesis
    by (simp only: complex_eq_iff cis.sel complex.sel sqrt_1732)
qed

lemma phase2_range: "0 < phase2" "phase2 < pi"
proof -
  have "arctan 1.732 < pi / 2" by (rule arctan_ubound)
  moreover have "0 < arctan (1.732::real)" by simp
  ultimately show "0 < phase2" "phase2 < pi"
    unfolding phase2_def using pi_gt_zero by linarith+
qed

lemma Complex_div_real: "Complex a b / of_real r = Complex (a / r) (b / r)"
  by (simp add: complex_eq_iff)

lemma Arg_icoil:
  assumes "0 < AMPS_RMS c"
  shows "Arg (icoil1 c) = 0" and "Arg (icoil2 c) = phase2" and "Arg (icoil3 c) = - phase2"
proof -
  define a where "a = AMPS c"
  have A: "0 < a" using assms by (simp add: a_def AMPS_pos)
  define s where "s = sqrt (999956/1000000)"
  have s: "0 < s" by (simp add: s_def)
  have m: "cmod (icoil2 c) = a * s" "cmod (icoil3 c) = a * s"
    using cmod_icoil23 [OF assms] by (simp_all add: s_def a_def)
  have i: "icoil1 c = Complex a 0" "icoil2 c = Complex (- (a / 2)) (a * (866/1000))"
    "icoil3 c = Complex (- (a / 2)) (- (a * (866/1000)))"
    by (simp_all only: icoil_Complex a_def)
  have p: "cis phase2 = Complex (- (1 / (2 * s))) ((1732/1000) / (2 * s))"
    using cis_phase2 by (simp only: s_def)
  have r1: "- (a / 2) / (a * s) = - (1 / (2 * s))"
    using A s by (simp add: field_simps)
  have r2: "a * (866/1000) / (a * s) = (1732/1000) / (2 * s)"
    using A s by (simp add: field_simps)
  have r3: "- (a * (866/1000)) / (a * s) = - ((1732/1000) / (2 * s))"
    using A s by (simp add: field_simps)
  have "sgn (icoil1 c) = cis 0"
    using A by (simp add: sgn_eq i complex_norm complex_eq_iff)
  then show "Arg (icoil1 c) = 0"
    by (rule cis_Arg_unique) simp_all
  have "sgn (icoil2 c) = icoil2 c / of_real (a * s)"
    by (simp only: sgn_eq m)
  also have "\<dots> = Complex (- (1 / (2 * s))) ((1732/1000) / (2 * s))"
    by (simp only: i Complex_div_real r1 r2)
  finally have "sgn (icoil2 c) = cis phase2"
    by (simp only: p)
  then show "Arg (icoil2 c) = phase2"
    using phase2_range by (intro cis_Arg_unique) simp_all
  have q: "cis (- phase2) = Complex (- (1 / (2 * s))) (- ((1732/1000) / (2 * s)))"
    using p by (simp add: complex_eq_iff)
  have "sgn (icoil3 c) = icoil3 c / of_real (a * s)"
    by (simp only: sgn_eq m)
  also have "\<dots> = Complex (- (1 / (2 * s))) (- ((1732/1000) / (2 * s)))"
    by (simp only: i Complex_div_real r1 r3)
  finally have "sgn (icoil3 c) = cis (- phase2)"
    by (simp only: q)
  then show "Arg (icoil3 c) = - phase2"
    using phase2_range by (intro cis_Arg_unique) simp_all
qed

lemma arctan_sqrt3: "arctan (sqrt 3) = pi / 3"
proof -
  have "arctan (tan (pi / 3)) = pi / 3"
    by (rule arctan_tan) (use pi_gt_zero in linarith)+
  then show ?thesis by (simp add: tan_60)
qed

lemma phase2_gt: "2 * pi / 3 < phase2"
proof -
  have "arctan 1.732 < arctan (sqrt 3)"
    using sqrt3_bounds(1) by (simp add: arctan_less_iff)
  then show ?thesis by (simp add: phase2_def arctan_sqrt3)
qed

lemma tan_small: "19/1000000 < tan (2/100000 :: real)"
proof -
  let ?e = "2/100000 :: real"
  have e: "0 < ?e" "?e < pi / 2" using pi_gt_314 by simp_all
  have c: "0 < cos ?e" using e by (intro cos_gt_zero) simp_all
  have "?e - ?e ^ 3 / 6 \<le> sin ?e" by (rule sin_lower) simp
  moreover have "(19/1000000 :: real) < ?e - ?e ^ 3 / 6" by (simp add: power3_eq_cube)
  ultimately have s: "19/1000000 < sin ?e" by linarith
  have "sin ?e * cos ?e \<le> sin ?e * 1"
    using s by (intro mult_left_mono) simp_all
  then have "sin ?e \<le> sin ?e / cos ?e"
    using c by (simp add: pos_le_divide_eq)
  then have "sin ?e \<le> tan ?e" by (simp only: tan_def)
  with s show ?thesis by linarith
qed

lemma phase2_lt: "phase2 < 2 * pi / 3 + 2/100000"
proof -
  let ?e = "2/100000 :: real"
  let ?x = "pi / 3 - ?e"
  define T where "T = tan ?e"
  define r where "r = sqrt 3"
  have T: "19/1000000 < T" using tan_small by (simp add: T_def)
  have r: "1732/1000 < r" "r < 173206/100000"
  proof -
    show "1732/1000 < r" using sqrt3_bounds(1) by (simp add: r_def)
    show "r < 173206/100000"
      unfolding r_def by (rule real_less_lsqrt) (simp_all add: power2_eq_square)
  qed
  have x: "- (pi / 2) < ?x" "?x < pi / 2" using pi_gt_314 by simp_all
  have ce: "cos ?e \<noteq> 0"
    using cos_gt_zero [of ?e] pi_gt_314 by simp
  have cx: "cos ?x \<noteq> 0"
    using cos_gt_zero_pi [OF x] by simp
  have "tan ?x = (tan (pi / 3) - tan ?e) / (1 + tan (pi / 3) * tan ?e)"
    using ce cx by (intro tan_diff) (simp_all add: cos_60)
  then have t: "tan ?x = (r - T) / (1 + r * T)"
    by (simp only: tan_60 T_def r_def)
  have "(1732/1000) * (19/1000000) < r * T"
    using r T by (intro mult_strict_mono) simp_all
  then have rT: "32908/1000000000 < r * T" by simp
  have d: "0 < 1 + r * T" using rT by simp
  have "r - T < (1732/1000) * (1 + r * T)"
    using r T rT by simp
  then have "(r - T) / (1 + r * T) < 1732/1000"
    using d by (simp add: pos_divide_less_eq)
  then have "tan ?x < 1732/1000" by (simp only: t)
  then have "arctan (tan ?x) < arctan (1732/1000)"
    by (simp only: arctan_less_iff)
  then have "?x < arctan (1732/1000)"
    by (simp only: arctan_tan [OF x])
  then show ?thesis by (simp add: phase2_def)
qed

text \<open>
  Claim C5, as amended. For a positive current the three phasors
  \<open>AMPS\<close>, \<open>AMPS (-0.5 + 0.866j)\<close> and \<open>AMPS (-0.5 - 0.866j)\<close> add up to exactly zero. The first
  has magnitude \<open>AMPS\<close>; the other two have the same magnitude \<open>AMPS \<surd>0.999956\<close>, smaller by
  between 21 and 23 millionths of \<open>AMPS\<close>, since 0.866 is \<open>\<surd>3 / 2\<close> cut to three digits.
  Their phases are \<open>0\<close>, \<open>\<pi> - arctan 1.732\<close> and its opposite: the second circuit leads by a
  little more than 120 degrees, within \<open>2 \<cdot> 10\<^sup>-\<^sup>5\<close> radians of it, and the third lags by as much.
\<close>

theorem circuit_phasors:
  assumes "0 < AMPS_RMS c"
  shows "icoil1 c + icoil2 c + icoil3 c = 0
       \<and> cmod (icoil1 c) = AMPS c
       \<and> cmod (icoil2 c) = AMPS c * sqrt 0.999956
       \<and> cmod (icoil3 c) = AMPS c * sqrt 0.999956
       \<and> 21 / 10 ^ 6 * AMPS c < cmod (icoil1 c) - cmod (icoil2 c)
       \<and> cmod (icoil1 c) - cmod (icoil2 c) < 23 / 10 ^ 6 * AMPS c
       \<and> Arg (icoil1 c) = 0
       \<and> Arg (icoil2 c) = phase2
       \<and> Arg (icoil3 c) = - phase2
       \<and> phase2 = pi - arctan 1.732
       \<and> 2 * pi / 3 < phase2
       \<and> phase2 < 2 * pi / 3 + 2 / 10 ^ 5"
proof -
  have 1: "cmod (icoil2 c) = AMPS c * sqrt 0.999956" "cmod (icoil3 c) = AMPS c * sqrt 0.999956"
    using cmod_icoil23 [OF assms] by simp_all
  have 2: "21 / 10 ^ 6 * AMPS c < cmod (icoil1 c) - cmod (icoil2 c)"
    "cmod (icoil1 c) - cmod (icoil2 c) < 23 / 10 ^ 6 * AMPS c"
    using magnitude_gap [OF assms] by simp_all
  have 3: "phase2 < 2 * pi / 3 + 2 / 10 ^ 5"
    using phase2_lt by simp
  show ?thesis
    using icoil_sum [of c] cmod_icoil1 [OF assms] 1 2 Arg_icoil [OF assms] phase2_gt 3
    by (simp only: phase2_def)
qed

theorem circuit_phasors_witness:
  "0 < AMPS_RMS Main_cable
   \<and> icoil1 Main_cable + icoil2 Main_cable + icoil3 Main_cable = 0
   \<and> cmod (icoil1 Main_cable) = sqrt 2 * 0.057
   \<and> cmod (icoil2 Main_cable) = sqrt 2 * 0.057 * sqrt 0.999956
   \<and> Arg (icoil2 Main_cable) = pi - arctan 1.732
   \<and> Arg (icoil3 Main_cable) = - (pi - arctan 1.732)"
proof -
  have h: "0 < AMPS_RMS Main_cable" by (simp add: Main_cable_def)
  have a: "AMPS Main_cable = sqrt 2 * 0.057" by (simp add: AMPS_def Main_cable_def)
  show ?thesis
    using h circuit_phasors [OF h] by (simp add: a)
qed

text \<open>
  Claim C5 as stated fails: for the current of the file the magnitudes of the first and second
  phasor differ by more than \<open>10\<^sup>-\<^sup>5\<close> of the magnitude, and by more than \<open>10\<^sup>-\<^sup>6\<close> A, far from
  the rounding of a double.
\<close>

theorem magnitudes_differ:
  "\<not> \<bar>cmod (icoil1 Main_cable) - cmod (icoil2 Main_cable)\<bar> \<le> 1 / 10 ^ 5 * cmod (icoil1 Main_cable)
   \<and> \<not> \<bar>cmod (icoil1 Main_cable) - cmod (icoil2 Main_cable)\<bar> \<le> 1 / 10 ^ 6"
proof -
  have h: "0 < AMPS_RMS Main_cable" by (simp add: Main_cable_def)
  have "141/100 < sqrt 2"
    by (rule real_less_rsqrt) (simp add: power2_eq_square)
  then have a: "80/1000 < AMPS Main_cable"
    by (simp add: AMPS_def Main_cable_def)
  have g: "21/1000000 * AMPS Main_cable < cmod (icoil1 Main_cable) - cmod (icoil2 Main_cable)"
    using magnitude_gap(1) [OF h] .
  have m: "cmod (icoil1 Main_cable) = AMPS Main_cable"
    using cmod_icoil1 [OF h] .
  show ?thesis using a g unfolding m by simp
qed

end
